theory Spec2Isabelle
  imports Complex_Main
begin

section \<open>Numbers, arrays and slices\<close>

text \<open>
  Python floats are modelled as the real numbers they approximate: comparisons, sums and
  quotients are exact. The one place where the rounding of the float operations is
  written out is the computation of the percentages of an episode, which are rounded to
  two decimals. Arrays and lists are HOL lists.
\<close>

definition np_mean :: "real list \<Rightarrow> real" where
  \<comment> \<open>\<open>np.mean(values)\<close>: the sum divided by the number of values.\<close>
  "np_mean xs = sum_list xs / real (length xs)"

definition py_int :: "real \<Rightarrow> int" where
  \<comment> \<open>\<open>int(x)\<close> on a float: truncation towards zero.\<close>
  "py_int x = (if 0 \<le> x then \<lfloor>x\<rfloor> else \<lceil>x\<rceil>)"

definition slice_index :: "int \<Rightarrow> nat \<Rightarrow> nat" where
  \<comment> \<open>A slice bound: a negative bound counts from the end, and the bound is clamped
      to the length of the sequence.\<close>
  "slice_index i n = (if i < 0 then nat (max 0 (i + int n)) else min (nat i) n)"

definition py_slice :: "'a list \<Rightarrow> int \<Rightarrow> int \<Rightarrow> 'a list" where
  \<comment> \<open>\<open>xs[a:b]\<close>: never raises, an empty range gives the empty sequence.\<close>
  "py_slice xs a b =
     (let lo = slice_index a (length xs); hi = slice_index b (length xs)
      in take (hi - lo) (drop lo xs))"

section \<open>Episode detection (cry_detector.py)\<close>

record CryEpisode =
  start_time :: real
  end_time :: real
  duration :: real
  confidence :: real

record CryDetector =
  sr :: int
  chunk_duration :: int
  energy_threshold :: real
  min_duration :: real
  max_gap :: real
  freq_min :: int
  freq_max :: int

definition default_detector :: CryDetector where
  \<comment> \<open>The defaults of \<open>CryDetector.__init__\<close>.\<close>
  "default_detector =
     \<lparr>sr = 22050, chunk_duration = 60, energy_threshold = 0.02, min_duration = 0.5,
      max_gap = 1.0, freq_min = 200, freq_max = 5000\<rparr>"

text \<open>
  The signal-processing library is outside the repository. The detectors only read the
  arrays it returns, so the library enters the model as a record of functions: the
  duration of a file, the samples of a part of it, the per-frame features, the smoothing
  filter and the magnitude spectrum.
\<close>

record audio_lib =
  get_duration :: "string \<Rightarrow> real"
  load :: "string \<Rightarrow> int \<Rightarrow> real \<Rightarrow> int \<Rightarrow> real list"
  rms :: "real list \<Rightarrow> real list"
  spectral_centroid :: "real list \<Rightarrow> int \<Rightarrow> real list"
  savgol_filter :: "real list \<Rightarrow> nat \<Rightarrow> nat \<Rightarrow> real list"
  zero_crossing_rate :: "real list \<Rightarrow> real list"
  rfft_magnitude :: "real list \<Rightarrow> real list"

definition is_cry_frame :: "CryDetector \<Rightarrow> real list \<Rightarrow> real list \<Rightarrow> bool list" where
  \<comment> \<open>\<open>_is_cry_frame\<close>: elementwise on the two arrays.\<close>
  "is_cry_frame cfg energy centroid =
     map2 (\<lambda>e c. e > energy_threshold cfg \<and>
                  (c \<ge> real_of_int (freq_min cfg) \<and> c \<le> real_of_int (freq_max cfg)))
          energy centroid"

text \<open>The local variables of the run-length loop of \<open>_detect_cry_segments\<close>.\<close>

record seg_state =
  in_segment :: bool
  segment_start :: nat
  segment_energy_sum :: real
  segment_frames :: nat
  segments :: "(real \<times> real \<times> real) list"

definition seg_init :: seg_state where
  "seg_init = \<lparr>in_segment = False, segment_start = 0, segment_energy_sum = 0,
               segment_frames = 0, segments = []\<rparr>"

definition close_segment ::
  "CryDetector \<Rightarrow> real \<Rightarrow> real \<Rightarrow> nat \<Rightarrow> seg_state \<Rightarrow> (real \<times> real \<times> real) list" where
  \<comment> \<open>The segment list after a run that ends before frame \<open>i\<close>: the run is kept when it
      lasts at least \<open>min_duration\<close>.\<close>
  "close_segment cfg frame_duration time_offset i st =
     (let segment_duration = real (segment_frames st) * frame_duration
      in if segment_duration \<ge> min_duration cfg then
           (let start_time = time_offset + real (segment_start st) * frame_duration;
                end_time = time_offset + real i * frame_duration;
                confidence = min (segment_energy_sum st / real (segment_frames st)
                                    / energy_threshold cfg) 1
            in segments st @ [(start_time, end_time, confidence)])
         else segments st)"

definition seg_step ::
  "CryDetector \<Rightarrow> real \<Rightarrow> real \<Rightarrow> real list \<Rightarrow> nat \<times> bool \<Rightarrow> seg_state \<Rightarrow> seg_state" where
  \<comment> \<open>One iteration of \<open>for i, cry in enumerate(is_cry)\<close>.\<close>
  "seg_step cfg frame_duration time_offset energy ic st =
     (case ic of (i, cry) \<Rightarrow>
        if cry \<and> \<not> in_segment st then
          st\<lparr>in_segment := True, segment_start := i,
             segment_energy_sum := energy ! i, segment_frames := 1\<rparr>
        else if cry \<and> in_segment st then
          st\<lparr>segment_energy_sum := segment_energy_sum st + energy ! i,
             segment_frames := segment_frames st + 1\<rparr>
        else if \<not> cry \<and> in_segment st then
          st\<lparr>in_segment := False,
             segments := close_segment cfg frame_duration time_offset i st\<rparr>
        else st)"

definition detect_cry_segments_from ::
  "CryDetector \<Rightarrow> real list \<Rightarrow> real list \<Rightarrow> real \<Rightarrow> (real \<times> real \<times> real) list" where
  \<comment> \<open>\<open>_detect_cry_segments\<close> from the two feature arrays on.\<close>
  "detect_cry_segments_from cfg energy centroid time_offset =
     (let hop_length = (512::int);
          frame_duration = real_of_int hop_length / real_of_int (sr cfg);
          is_cry = is_cry_frame cfg energy centroid;
          st = fold (seg_step cfg frame_duration time_offset energy)
                    (List.enumerate 0 is_cry) seg_init
      in if in_segment st
         then close_segment cfg frame_duration time_offset (length is_cry) st
         else segments st)"

definition detect_cry_segments ::
  "audio_lib \<Rightarrow> CryDetector \<Rightarrow> real list \<Rightarrow> real \<Rightarrow> (real \<times> real \<times> real) list" where
  "detect_cry_segments lib cfg y time_offset =
     detect_cry_segments_from cfg (rms lib y) (spectral_centroid lib y (sr cfg)) time_offset"

definition make_episode :: "real \<Rightarrow> real \<Rightarrow> real list \<Rightarrow> CryEpisode" where
  \<comment> \<open>The \<open>CryEpisode(...)\<close> construction, written twice in the source.\<close>
  "make_episode current_start current_end confidences =
     \<lparr>CryEpisode.start_time = current_start, end_time = current_end,
      duration = current_end - current_start, confidence = np_mean confidences\<rparr>"

fun merge_loop ::
  "real \<Rightarrow> (real \<times> real \<times> real) list \<Rightarrow> real \<Rightarrow> real \<Rightarrow> real list \<Rightarrow> CryEpisode list
     \<Rightarrow> CryEpisode list" where
  "merge_loop mg [] current_start current_end confidences episodes =
     episodes @ [make_episode current_start current_end confidences]"
| "merge_loop mg ((start, end, conf) # rest) current_start current_end confidences episodes =
     (let gap = start - current_end
      in if gap \<le> mg
         then merge_loop mg rest current_start end (confidences @ [conf]) episodes
         else merge_loop mg rest start end [conf]
                (episodes @ [make_episode current_start current_end confidences]))"

definition merge_segments_to_episodes ::
  "CryDetector \<Rightarrow> (real \<times> real \<times> real) list \<Rightarrow> CryEpisode list" where
  \<comment> \<open>\<open>sorted(segments, key=lambda x: x[0])\<close> is a stable sort, as \<open>sort_key\<close> is.\<close>
  "merge_segments_to_episodes cfg segs =
     (if segs = [] then []
      else case sort_key fst segs of
             [] \<Rightarrow> []
           | (start0, end0, conf0) # rest \<Rightarrow>
               merge_loop (max_gap cfg) rest start0 end0 [conf0] [])"

definition chunk_offsets :: "real \<Rightarrow> int \<Rightarrow> real list" where
  \<comment> \<open>\<open>np.arange(0, duration, chunk_duration)\<close>: the multiples of the chunk length
      below the duration.\<close>
  "chunk_offsets dur chunk =
     map (\<lambda>k. real k * real_of_int chunk) [0 ..< nat \<lceil>dur / real_of_int chunk\<rceil>]"

definition detect_from_file :: "audio_lib \<Rightarrow> CryDetector \<Rightarrow> string \<Rightarrow> CryEpisode list" where
  "detect_from_file lib cfg file_path =
     (let dur = get_duration lib file_path;
          all_segments =
            concat (map (\<lambda>offset.
                      detect_cry_segments lib cfg
                        (load lib file_path (sr cfg) offset (chunk_duration cfg)) offset)
                    (chunk_offsets dur (chunk_duration cfg)))
      in merge_segments_to_episodes cfg all_segments)"

section \<open>Unit segmentation (cry_unit_detector.py)\<close>

record CryUnit =
  start_time :: real
  end_time :: real
  duration :: real
  is_voiced :: bool
  mean_energy :: real
  peak_frequency :: real

record CryUnitDetector =
  sr :: int
  silence_threshold :: real
  min_unit_duration :: real
  min_silence_duration :: real
  voiced_threshold :: real

definition default_unit_detector :: CryUnitDetector where
  \<comment> \<open>The defaults of \<open>CryUnitDetector.__init__\<close>.\<close>
  "default_unit_detector =
     \<lparr>sr = 22050, silence_threshold = 0.01, min_unit_duration = 0.1,
      min_silence_duration = 0.05, voiced_threshold = 0.3\<rparr>"

text \<open>The local variables of the loop of \<open>_find_silence_segments\<close>.\<close>

record sil_state =
  in_silence :: bool
  silence_start :: nat
  sil_segments :: "(real \<times> real) list"

definition sil_init :: sil_state where
  "sil_init = \<lparr>in_silence = False, silence_start = 0, sil_segments = []\<rparr>"

definition close_silence ::
  "CryUnitDetector \<Rightarrow> real \<Rightarrow> nat \<Rightarrow> sil_state \<Rightarrow> (real \<times> real) list" where
  \<comment> \<open>The segment list after a silence that ends before frame \<open>i\<close>: the silence is
      kept when it lasts at least \<open>min_silence_duration\<close>.\<close>
  "close_silence cfg frame_duration i st =
     (let silence_duration = real_of_int (int i - int (silence_start st)) * frame_duration
      in if silence_duration \<ge> min_silence_duration cfg then
           (let start_time = real (silence_start st) * frame_duration;
                end_time = real i * frame_duration
            in sil_segments st @ [(start_time, end_time)])
         else sil_segments st)"

definition sil_step :: "CryUnitDetector \<Rightarrow> real \<Rightarrow> nat \<times> bool \<Rightarrow> sil_state \<Rightarrow> sil_state" where
  \<comment> \<open>One iteration of \<open>for i, is_silence in enumerate(silence_frames)\<close>.\<close>
  "sil_step cfg frame_duration ix st =
     (case ix of (i, is_silence) \<Rightarrow>
        if is_silence \<and> \<not> in_silence st then
          st\<lparr>in_silence := True, silence_start := i\<rparr>
        else if \<not> is_silence \<and> in_silence st then
          st\<lparr>in_silence := False, sil_segments := close_silence cfg frame_duration i st\<rparr>
        else st)"

definition find_silence_segments ::
  "CryUnitDetector \<Rightarrow> bool list \<Rightarrow> real \<Rightarrow> (real \<times> real) list" where
  "find_silence_segments cfg silence_frames frame_duration =
     (let st = fold (sil_step cfg frame_duration) (List.enumerate 0 silence_frames) sil_init
      in if in_silence st
         then close_silence cfg frame_duration (length silence_frames) st
         else sil_segments st)"

fun boundaries_loop ::
  "(real \<times> real) list \<Rightarrow> real \<Rightarrow> real \<Rightarrow> (real \<times> real) list \<Rightarrow> (real \<times> real) list" where
  "boundaries_loop [] total_duration current_start boundaries =
     (if current_start < total_duration
      then boundaries @ [(current_start, total_duration)] else boundaries)"
| "boundaries_loop ((sil_start, sil_end) # rest) total_duration current_start boundaries =
     boundaries_loop rest total_duration sil_end
       (if sil_start > current_start
        then boundaries @ [(current_start, sil_start)] else boundaries)"

definition determine_unit_boundaries ::
  "(real \<times> real) list \<Rightarrow> real \<Rightarrow> (real \<times> real) list" where
  "determine_unit_boundaries silence_segments total_duration =
     (if silence_segments = [] then [(0, total_duration)]
      else boundaries_loop silence_segments total_duration 0 [])"

definition rms_energy :: "real list \<Rightarrow> real" where
  \<comment> \<open>\<open>np.sqrt(np.mean(audio ** 2))\<close>\<close>
  "rms_energy audio = sqrt (np_mean (map (\<lambda>x. x\<^sup>2) audio))"

definition classify_voicing :: "CryUnitDetector \<Rightarrow> audio_lib \<Rightarrow> real list \<Rightarrow> bool" where
  \<comment> \<open>\<open>_classify_voicing\<close>: audio shorter than 20 ms is not judged and counts as
      unvoiced.\<close>
  "classify_voicing cfg lib audio =
     (if real (length audio) < real_of_int (sr cfg) * 0.02 then False
      else
        (let zcr = zero_crossing_rate lib audio;
             mean_zcr = np_mean zcr;
             is_voiced = (mean_zcr < 0.1);
             energy = rms_energy audio
         in if energy < 0.01 then False else is_voiced))"

definition np_argmax :: "real list \<Rightarrow> nat" where
  \<comment> \<open>\<open>np.argmax\<close>: the first index of the largest entry.\<close>
  "np_argmax xs =
     fst (fold (\<lambda>(i, x) (bi, bx). if x > bx then (i, x) else (bi, bx))
               (List.enumerate 0 xs) (0, hd xs))"

definition estimate_peak_frequency :: "CryUnitDetector \<Rightarrow> audio_lib \<Rightarrow> real list \<Rightarrow> real" where
  "estimate_peak_frequency cfg lib audio =
     (if length audio < 512 then 0
      else
        (let magnitude = rfft_magnitude lib audio;
             peak_idx = np_argmax magnitude
         in real peak_idx * real_of_int (sr cfg) / real (2 * length magnitude)))"

definition make_unit ::
  "CryUnitDetector \<Rightarrow> audio_lib \<Rightarrow> real \<Rightarrow> real list \<Rightarrow> real list \<Rightarrow> real
     \<Rightarrow> real \<times> real \<Rightarrow> CryUnit option" where
  \<comment> \<open>The body of the loop over \<open>unit_boundaries\<close>; \<open>None\<close> is \<open>continue\<close>.\<close>
  "make_unit cfg lib episode_start_time episode_audio energy frame_duration b =
     (case b of (unit_start, unit_end) \<Rightarrow>
        (let abs_start = episode_start_time + unit_start;
             abs_end = episode_start_time + unit_end
         in if (abs_end - abs_start) < min_unit_duration cfg then None
            else
              (let unit_start_sample = py_int (unit_start * real_of_int (sr cfg));
                   unit_end_sample = py_int (unit_end * real_of_int (sr cfg));
                   unit_audio = py_slice episode_audio unit_start_sample unit_end_sample
               in if length unit_audio = 0 then None
                  else
                    (let is_voiced = classify_voicing cfg lib unit_audio;
                         unit_energy_frames =
                           py_slice energy (py_int (unit_start / frame_duration))
                                           (py_int (unit_end / frame_duration));
                         mean_energy = (if length unit_energy_frames > 0
                                        then np_mean unit_energy_frames else 0);
                         peak_freq = estimate_peak_frequency cfg lib unit_audio
                     in Some \<lparr>CryUnit.start_time = abs_start, end_time = abs_end,
                               duration = abs_end - abs_start, is_voiced = is_voiced,
                               mean_energy = mean_energy, peak_frequency = peak_freq\<rparr>))))"

definition episode_slice :: "CryUnitDetector \<Rightarrow> real list \<Rightarrow> real \<Rightarrow> real \<Rightarrow> real list" where
  \<comment> \<open>\<open>y[int(episode_start_time * sr):int(episode_end_time * sr)]\<close>\<close>
  "episode_slice cfg y episode_start_time episode_end_time =
     py_slice y (py_int (episode_start_time * real_of_int (sr cfg)))
                (py_int (episode_end_time * real_of_int (sr cfg)))"

definition energy_envelope :: "audio_lib \<Rightarrow> real list \<Rightarrow> real list" where
  \<comment> \<open>The RMS energy of the episode, smoothed when it has at least five frames.\<close>
  "energy_envelope lib episode_audio =
     (let energy = rms lib episode_audio;
          window_length = (5::nat)
      in if length energy \<ge> window_length
         then savgol_filter lib energy window_length 2 else energy)"

definition detect_units_in_episode ::
  "CryUnitDetector \<Rightarrow> audio_lib \<Rightarrow> real list \<Rightarrow> real \<Rightarrow> real \<Rightarrow> CryUnit list" where
  "detect_units_in_episode cfg lib y episode_start_time episode_end_time =
     (let episode_audio = episode_slice cfg y episode_start_time episode_end_time
      in if length episode_audio = 0 then []
         else
           (let hop_length = (512::int);
                frame_duration = real_of_int hop_length / real_of_int (sr cfg);
                energy = energy_envelope lib episode_audio;
                silence_frames = map (\<lambda>x. x < silence_threshold cfg) energy;
                silence_segments = find_silence_segments cfg silence_frames frame_duration;
                unit_boundaries =
                  determine_unit_boundaries silence_segments
                    (real (length energy) * frame_duration)
            in List.map_filter
                 (make_unit cfg lib episode_start_time episode_audio energy frame_duration)
                 unit_boundaries))"

definition calculate_cry_unit_metrics :: "CryUnit list \<Rightarrow> real \<times> real" where
  "calculate_cry_unit_metrics units =
     (if units = [] then (0, 0)
      else
        (let voiced_units = filter is_voiced units;
             cryCE = (if voiced_units \<noteq> []
                      then np_mean (map CryUnit.duration voiced_units) else 0);
             unvoiced_units = filter (\<lambda>u. \<not> is_voiced u) units;
             unvoicedCE = (if unvoiced_units \<noteq> []
                           then sum_list (map CryUnit.duration unvoiced_units) else 0)
         in (cryCE, unvoicedCE)))"

section \<open>Episode statistics (acoustic_analyzer.py)\<close>

record AcousticFeatures =
  time :: real
  f0 :: "real option"
  f1 :: "real option"
  f2 :: "real option"
  f3 :: "real option"
  hnr :: "real option"
  shimmer :: "real option"
  jitter :: "real option"
  intensity :: "real option"

definition params :: "string list" where
  "params = [''f0'', ''f1'', ''f2'', ''f3'', ''hnr'', ''shimmer'', ''jitter'', ''intensity'']"

definition getattr :: "AcousticFeatures \<Rightarrow> string \<Rightarrow> real option" where
  \<comment> \<open>\<open>getattr(f, param)\<close> for the eight parameter names; \<open>None\<close> is Python's \<open>None\<close>.\<close>
  "getattr f param =
     (if param = ''f0'' then f0 f
      else if param = ''f1'' then f1 f
      else if param = ''f2'' then f2 f
      else if param = ''f3'' then f3 f
      else if param = ''hnr'' then hnr f
      else if param = ''shimmer'' then shimmer f
      else if param = ''jitter'' then jitter f
      else if param = ''intensity'' then intensity f
      else None)"

definition defined_values :: "AcousticFeatures list \<Rightarrow> string \<Rightarrow> real list" where
  \<comment> \<open>\<open>[getattr(f, param) for f in features_list if getattr(f, param) is not None]\<close>\<close>
  "defined_values features_list param = List.map_filter (\<lambda>f. getattr f param) features_list"

definition np_std :: "real list \<Rightarrow> real" where
  \<comment> \<open>\<open>np.std\<close>: the population standard deviation.\<close>
  "np_std xs = sqrt (np_mean (map (\<lambda>x. (x - np_mean xs)\<^sup>2) xs))"

definition np_min :: "real list \<Rightarrow> real" where
  "np_min xs = fold min (tl xs) (hd xs)"

definition np_max :: "real list \<Rightarrow> real" where
  "np_max xs = fold max (tl xs) (hd xs)"

definition np_median :: "real list \<Rightarrow> real" where
  \<comment> \<open>\<open>np.median\<close>: the middle of the sorted values, the mean of the two middle ones
      when their number is even.\<close>
  "np_median xs =
     (let s = sort xs; n = length xs
      in if odd n then s ! (n div 2) else (s ! (n div 2 - 1) + s ! (n div 2)) / 2)"

record param_statistics =
  mean :: "real option"
  std :: "real option"
  min_value :: "real option"
  max_value :: "real option"
  median :: "real option"

definition all_null :: param_statistics where
  "all_null = \<lparr>mean = None, std = None, min_value = None, max_value = None, median = None\<rparr>"

definition statistics_of :: "real list \<Rightarrow> param_statistics" where
  \<comment> \<open>The body of the loop over \<open>params\<close>, from \<open>values\<close> on.\<close>
  "statistics_of vals =
     (if vals \<noteq> [] then
        \<lparr>mean = Some (np_mean vals), std = Some (np_std vals), min_value = Some (np_min vals),
         max_value = Some (np_max vals), median = Some (np_median vals)\<rparr>
      else all_null)"

definition compute_statistics :: "AcousticFeatures list \<Rightarrow> (string \<rightharpoonup> param_statistics)" where
  "compute_statistics features_list =
     map_of (map (\<lambda>param. (param, statistics_of (defined_values features_list param))) params)"

text \<open>
  The four percentages are quotients of counts, scaled and then rounded to two decimals,
  so their last digit depends on the rounding of each floating-point operation. Here the
  rounding is written out: every operation yields the binary64 number nearest to its
  exact result, a tie going to the even significand.
\<close>

definition round_half_even :: "real \<Rightarrow> int" where
  "round_half_even x =
     (let f = \<lfloor>x\<rfloor>; d = x - real_of_int f
      in if d < 1 / 2 then f else if d > 1 / 2 then f + 1 else if even f then f else f + 1)"

definition binary64 :: "real \<Rightarrow> real" where
  \<comment> \<open>The nearest number with a significand of 53 bits; the range of the exponent is
      not limited.\<close>
  "binary64 x =
     (if x = 0 then 0
      else
        (let e = \<lfloor>log 2 \<bar>x\<bar>\<rfloor>;
             ulp = 2 powr (real_of_int e - 52)
         in real_of_int (round_half_even (x / ulp)) * ulp))"

definition py_truediv :: "int \<Rightarrow> int \<Rightarrow> real" where
  \<comment> \<open>\<open>a / b\<close> on integers: the quotient, correctly rounded.\<close>
  "py_truediv a b = binary64 (real_of_int a / real_of_int b)"

definition float_mul :: "real \<Rightarrow> real \<Rightarrow> real" where
  "float_mul x y = binary64 (x * y)"

definition float_add :: "real \<Rightarrow> real \<Rightarrow> real" where
  "float_add x y = binary64 (x + y)"

definition py_round2 :: "real \<Rightarrow> real" where
  \<comment> \<open>\<open>round(x, 2)\<close> on a float: the exact value of \<open>x\<close> to two decimals, a tie to the
      even neighbour, and then the float nearest to that decimal.\<close>
  "py_round2 x = binary64 (real_of_int (round_half_even (x * 100)) / 100)"

record special_parameters =
  high_pitch_pct :: real
  hyper_phonation_pct :: real
  voiced_pct :: real
  unvoiced_pct :: real

definition is_high_pitch :: "real \<Rightarrow> AcousticFeatures \<Rightarrow> bool" where
  "is_high_pitch high_pitch_threshold f =
     (case f0 f of None \<Rightarrow> False | Some v \<Rightarrow> v > high_pitch_threshold)"

definition is_hyper_phonation :: "AcousticFeatures \<Rightarrow> bool" where
  "is_hyper_phonation f =
     (case hnr f of None \<Rightarrow> False
      | Some h \<Rightarrow> h < 10 \<and>
          (case shimmer f of None \<Rightarrow> False
           | Some s \<Rightarrow> s > 5 \<and> (case jitter f of None \<Rightarrow> False | Some j \<Rightarrow> j > 1)))"

definition compute_special_parameters :: "AcousticFeatures list \<Rightarrow> real \<Rightarrow> special_parameters" where
  "compute_special_parameters features_list high_pitch_threshold =
     (let total_frames = int (length features_list)
      in if total_frames = 0 then
           \<lparr>high_pitch_pct = 0, hyper_phonation_pct = 0, voiced_pct = 0, unvoiced_pct = 0\<rparr>
         else
           (let high_pitch_count =
                  int (length (filter (is_high_pitch high_pitch_threshold) features_list));
                high_pitch_pct = float_mul (py_truediv high_pitch_count total_frames) 100;
                hyper_phonation_count = int (length (filter is_hyper_phonation features_list));
                hyper_phonation_pct =
                  float_mul (py_truediv hyper_phonation_count total_frames) 100;
                voiced_count = int (length (filter (\<lambda>f. f0 f \<noteq> None) features_list));
                unvoiced_count = total_frames - voiced_count;
                voiced_pct = float_mul (py_truediv voiced_count total_frames) 100;
                unvoiced_pct = float_mul (py_truediv unvoiced_count total_frames) 100
            in \<lparr>high_pitch_pct = py_round2 high_pitch_pct,
                hyper_phonation_pct = py_round2 hyper_phonation_pct,
                voiced_pct = py_round2 voiced_pct,
                unvoiced_pct = py_round2 unvoiced_pct\<rparr>))"

section \<open>The analysis job (analysis_tasks.py)\<close>

text \<open>
  The task reads and writes the database through one session. The model keeps the rows
  the task touches: the audio file rows by id, and the stored analysis results. An
  exception is a value; the stages that can raise (detection, loading the full audio,
  the analysis of one episode) are functions that return either the exception or
  their result, so the model covers whatever they raise. Progress notifications leave
  the database as it is and are not part of the state.
\<close>

datatype exn = ValueError string | Failure string

fun str_nat :: "nat \<Rightarrow> string" where
  "str_nat n =
     (if n < 10 then [''0123456789'' ! n]
      else str_nat (n div 10) @ [''0123456789'' ! (n mod 10)])"

definition str_int :: "int \<Rightarrow> string" where
  \<comment> \<open>The decimal numeral of an integer, as an f-string prints it.\<close>
  "str_int i = (if i < 0 then CHR ''-'' # str_nat (nat (- i)) else str_nat (nat i))"

record audio_file =
  file_path :: string
  status :: string

record 'r analysis_result =
  audio_file_id :: int
  result_data :: "CryEpisode list \<times> (nat \<times> 'r) list"

record 'r database =
  audio_files :: "int \<rightharpoonup> audio_file"
  analysis_results :: "'r analysis_result list"

record 'r stages =
  detect :: "string \<Rightarrow> exn + CryEpisode list"
  load_full :: "string \<Rightarrow> exn + real list"
  analyze_episode :: "string \<Rightarrow> real list \<Rightarrow> nat \<Rightarrow> CryEpisode \<Rightarrow> exn + 'r"

text \<open>
  The task returns the id of the stored result or raises. The id the database gives a new
  row is modelled as the number of stored results.
\<close>

datatype outcome = Returned nat | Raised exn

fun analyze_episodes ::
  "(nat \<Rightarrow> CryEpisode \<Rightarrow> exn + 'r) \<Rightarrow> nat \<Rightarrow> CryEpisode list \<Rightarrow> exn + (nat \<times> 'r) list" where
  \<comment> \<open>\<open>for i, episode in enumerate(cry_episodes)\<close>: the first exception ends the loop;
      the result of episode \<open>i\<close> is stored under the key \<open>episode_i\<close>.\<close>
  "analyze_episodes f i [] = Inr []"
| "analyze_episodes f i (episode # rest) =
     (case f i episode of
        Inl e \<Rightarrow> Inl e
      | Inr r \<Rightarrow>
          (case analyze_episodes f (Suc i) rest of
             Inl e \<Rightarrow> Inl e
           | Inr rs \<Rightarrow> Inr ((i, r) # rs)))"

definition set_status :: "int \<Rightarrow> audio_file \<Rightarrow> string \<Rightarrow> 'r database \<Rightarrow> 'r database" where
  \<comment> \<open>\<open>audio_file.status = s; self.db.commit()\<close>\<close>
  "set_status file_id af s db = db\<lparr>audio_files := (audio_files db)(file_id \<mapsto> af\<lparr>status := s\<rparr>)\<rparr>"

definition try_body :: "'r stages \<Rightarrow> int \<Rightarrow> 'r database \<Rightarrow> 'r database \<times> (exn + nat)" where
  \<comment> \<open>The \<open>try\<close> block: the database when the block is left, and the exception that
      left it or the id of the stored result.\<close>
  "try_body st file_id db =
     (case audio_files db file_id of
        None \<Rightarrow> (db, Inl (ValueError (''Audio file '' @ str_int file_id @ '' not found'')))
      | Some af \<Rightarrow>
          (let db1 = set_status file_id af ''processing'' db
           in case detect st (file_path af) of
                Inl e \<Rightarrow> (db1, Inl e)
              | Inr cry_episodes \<Rightarrow>
                  (case load_full st (file_path af) of
                     Inl e \<Rightarrow> (db1, Inl e)
                   | Inr y_full \<Rightarrow>
                       (case analyze_episodes (analyze_episode st (file_path af) y_full) 0
                               cry_episodes of
                          Inl e \<Rightarrow> (db1, Inl e)
                        | Inr rs \<Rightarrow>
                            (let analysis_result =
                                   \<lparr>audio_file_id = file_id, result_data = (cry_episodes, rs)\<rparr>;
                                 db2 = db1\<lparr>analysis_results :=
                                             analysis_results db1 @ [analysis_result]\<rparr>;
                                 db3 = set_status file_id af ''completed'' db2
                             in (db3, Inr (length (analysis_results db3))))))))"

definition analyze_audio_file :: "'r stages \<Rightarrow> int \<Rightarrow> 'r database \<Rightarrow> 'r database \<times> outcome" where
  \<comment> \<open>The task: the \<open>try\<close> block, and the \<open>except\<close> handler that looks the file up
      again, marks it failed when it is there, and re-raises.\<close>
  "analyze_audio_file st file_id db =
     (case try_body st file_id db of
        (db', Inr result_id) \<Rightarrow> (db', Returned result_id)
      | (db', Inl e) \<Rightarrow>
          (case audio_files db' file_id of
             Some af \<Rightarrow> (set_status file_id af ''failed'' db', Raised e)
           | None \<Rightarrow> (db', Raised e)))"

section \<open>A steady recording and a steady tone\<close>

text \<open>
  A stand-in for the library on a recording of \<open>dur\<close> seconds that holds the amplitude
  \<open>a\<close> throughout. A chunk has the samples between its offset and the end of the
  recording, at most the requested duration. The envelope has the number of frames the
  library produces for centred framing with hop length 512, one more than the number of
  whole hops, and every frame is taken at amplitude \<open>a\<close> (the padding of a centred frame
  lowers the two frames at either end, by less than a third, which leaves them on the
  same side of the thresholds for the amplitudes used below); the spectrum of a constant
  signal lies at frequency 0, so its spectral centroid is taken as 0 Hz (the library
  reports a few hertz, the leakage of the analysis window), below the band of a cry: the
  episode detector finds nothing in such a recording, and it serves the unit detector
  only; the smoothing leaves a constant envelope as it is; a signal that never changes
  sign has zero-crossing rate 0; the spectrum of a constant signal is its sum at
  frequency 0 and nothing elsewhere.
\<close>

definition frame_count :: "nat \<Rightarrow> nat" where
  "frame_count n = 1 + n div 512"

definition steady_lib :: "real \<Rightarrow> real \<Rightarrow> audio_lib" where
  "steady_lib dur a =
     \<lparr>get_duration = (\<lambda>_. dur),
      load = (\<lambda>_ rate offset d.
                replicate (nat \<lfloor>min (real_of_int d) (dur - offset) * real_of_int rate\<rfloor>) a),
      rms = (\<lambda>y. replicate (frame_count (length y)) a),
      spectral_centroid = (\<lambda>y _. replicate (frame_count (length y)) 0),
      savgol_filter = (\<lambda>xs _ _. xs),
      zero_crossing_rate = (\<lambda>y. replicate (frame_count (length y)) 0),
      rfft_magnitude = (\<lambda>y. (real (length y) * \<bar>a\<bar>) # replicate (length y div 2) 0)\<rparr>"

text \<open>
  A stand-in for the library on a recording of \<open>dur\<close> seconds of a tone of 1000 Hz,
  sampled 22050 times a second, whose root mean square is \<open>a\<close> (its peaks are at
  \<open>a\<close> times the square root of 2). The chunks of 60 seconds start at a whole number of
  periods. Every frame of the envelope is taken at the level \<open>a\<close> (again the two frames
  at either end are lower, by less than a third) and every frame has its spectral
  centroid at the frequency of the tone (the padded frames at either end have it
  somewhat higher, far below 5000 Hz); the tone crosses zero 2000 times a second, which
  is 40/441 of the samples; its spectrum is taken as the peak at the bin of the tone.
\<close>

definition tone :: "real \<Rightarrow> nat \<Rightarrow> real list" where
  "tone a n = map (\<lambda>i. a * sqrt 2 * sin (2 * pi * 1000 * real i / 22050)) [0 ..< n]"

definition tone_lib :: "real \<Rightarrow> real \<Rightarrow> audio_lib" where
  "tone_lib dur a =
     \<lparr>get_duration = (\<lambda>_. dur),
      load = (\<lambda>_ rate offset d.
                tone a (nat \<lfloor>min (real_of_int d) (dur - offset) * real_of_int rate\<rfloor>)),
      rms = (\<lambda>y. replicate (frame_count (length y)) a),
      spectral_centroid = (\<lambda>y _. replicate (frame_count (length y)) 1000),
      savgol_filter = (\<lambda>xs _ _. xs),
      zero_crossing_rate = (\<lambda>y. replicate (frame_count (length y)) (40 / 441)),
      rfft_magnitude =
        (\<lambda>y. (replicate (length y div 2 + 1) 0)
               [(1000 * length y) div 22050 := real (length y) * \<bar>a\<bar> / sqrt 2])\<rparr>"

section \<open>Example frames and an example job\<close>

definition pitch_frame :: "real \<Rightarrow> real option \<Rightarrow> AcousticFeatures" where
  \<comment> \<open>A frame at time \<open>t\<close> with pitch \<open>v\<close> and every other measure absent.\<close>
  "pitch_frame t v =
     \<lparr>time = t, f0 = v, f1 = None, f2 = None, f3 = None, hnr = None, shimmer = None,
      jitter = None, intensity = None\<rparr>"

definition sample_frames :: "AcousticFeatures list" where
  \<comment> \<open>Four frames; every measure is absent in some of them, and shimmer in all.\<close>
  "sample_frames =
     [\<lparr>time = 0, f0 = Some 300, f1 = Some 1000, f2 = None, f3 = Some 3000, hnr = Some 10,
       shimmer = None, jitter = Some 1, intensity = Some 60\<rparr>,
      \<lparr>time = 1, f0 = None, f1 = Some 1002, f2 = Some 2000, f3 = None, hnr = None,
       shimmer = None, jitter = None, intensity = Some 62\<rparr>,
      \<lparr>time = 2, f0 = Some 302, f1 = Some 1000, f2 = None, f3 = None, hnr = Some 14,
       shimmer = None, jitter = Some 3, intensity = Some 62\<rparr>,
      \<lparr>time = 3, f0 = None, f1 = Some 1002, f2 = None, f3 = None, hnr = None,
       shimmer = None, jitter = None, intensity = Some 60\<rparr>]"

definition unvoiced_frames :: "AcousticFeatures list" where
  "unvoiced_frames = [pitch_frame 0 None, pitch_frame 1 None]"

definition mixed_frames :: "AcousticFeatures list" where
  \<comment> \<open>160 frames, 23 of them voiced.\<close>
  "mixed_frames = replicate 23 (pitch_frame 0 (Some 300)) @ replicate 137 (pitch_frame 0 None)"

definition unit_of :: "real \<Rightarrow> real \<Rightarrow> bool \<Rightarrow> CryUnit" where
  \<comment> \<open>A unit with the given start, duration and voicing.\<close>
  "unit_of t d v =
     \<lparr>CryUnit.start_time = t, end_time = t + d, duration = d, is_voiced = v,
      mean_energy = 1/10, peak_frequency = 0\<rparr>"

definition four_units :: "CryUnit list" where
  "four_units = [unit_of 0 (2/5) True, unit_of 1 (1/5) False, unit_of 2 (3/5) True,
                 unit_of 3 (3/10) False]"

definition three_episodes :: "CryEpisode list" where
  "three_episodes =
     [\<lparr>CryEpisode.start_time = 0, end_time = 2, duration = 2, confidence = 1\<rparr>,
      \<lparr>CryEpisode.start_time = 5, end_time = 6, duration = 1, confidence = 1\<rparr>,
      \<lparr>CryEpisode.start_time = 9, end_time = 10, duration = 1, confidence = 1\<rparr>]"

definition failing_stages :: "nat stages" where
  \<comment> \<open>Detection finds three episodes; the analysis of the second one raises.\<close>
  "failing_stages =
     \<lparr>detect = (\<lambda>_. Inr three_episodes), load_full = (\<lambda>_. Inr []),
      analyze_episode = (\<lambda>_ _ i _. if i = 1 then Inl (Failure ''analysis failed'') else Inr i)\<rparr>"

definition working_stages :: "nat stages" where
  "working_stages =
     \<lparr>detect = (\<lambda>_. Inr three_episodes), load_full = (\<lambda>_. Inr []),
      analyze_episode = (\<lambda>_ _ i _. Inr i)\<rparr>"

definition uploaded_file :: audio_file where
  "uploaded_file = \<lparr>file_path = ''cry.wav'', status = ''uploaded''\<rparr>"

definition one_file_db :: "nat database" where
  "one_file_db = \<lparr>audio_files = [7 \<mapsto> uploaded_file], analysis_results = []\<rparr>"

section \<open>Invariants of the loops\<close>

definition episodes_ordered :: "CryEpisode list \<Rightarrow> bool" where
  \<comment> \<open>Sorted by start, each episode starting after the one before it has ended, and
      every duration the difference of end and start.\<close>
  "episodes_ordered eps \<longleftrightarrow>
     sorted (map CryEpisode.start_time eps) \<and>
     successively (\<lambda>a b. CryEpisode.end_time a < CryEpisode.start_time b) eps \<and>
     list_all (\<lambda>ep. CryEpisode.duration ep = CryEpisode.end_time ep - CryEpisode.start_time ep)
              eps"

definition seg_inv :: "seg_state \<Rightarrow> bool" where
  \<comment> \<open>The energy sum of the open run is not negative, and the confidences of the
      segments found so far lie between 0 and 1.\<close>
  "seg_inv st \<longleftrightarrow> 0 \<le> segment_energy_sum st \<and>
     (\<forall>x \<in> set (segments st). 0 \<le> snd (snd x) \<and> snd (snd x) \<le> 1)"

definition run_confidence :: "CryDetector \<Rightarrow> real list \<Rightarrow> nat \<Rightarrow> nat \<Rightarrow> real" where
  \<comment> \<open>The mean energy of the frames from \<open>a\<close> up to \<open>b\<close>, over the threshold, capped at 1.\<close>
  "run_confidence cfg energy a b =
     min (sum_list (take (b - a) (drop a energy)) / real (b - a) / energy_threshold cfg) 1"

definition is_run_segment ::
  "CryDetector \<Rightarrow> real \<Rightarrow> real \<Rightarrow> real list \<Rightarrow> bool list \<Rightarrow> real \<times> real \<times> real \<Rightarrow> bool" where
  \<comment> \<open>A segment of the chunk at offset \<open>off\<close>: a run of candidate frames from \<open>a\<close> up to
      \<open>b\<close>, with its times and its confidence.\<close>
  "is_run_segment cfg fd off energy is_cry x \<longleftrightarrow>
     (\<exists>a b. a < b \<and> b \<le> length is_cry \<and>
        (\<forall>i. a \<le> i \<and> i < b \<longrightarrow> is_cry ! i) \<and>
        x = (off + real a * fd, off + real b * fd, run_confidence cfg energy a b))"

definition run_inv ::
  "CryDetector \<Rightarrow> real \<Rightarrow> real \<Rightarrow> real list \<Rightarrow> bool list \<Rightarrow> nat \<Rightarrow> seg_state \<Rightarrow> bool" where
  \<comment> \<open>Before frame \<open>k\<close>: the open run reaches from its start to \<open>k\<close> and its sum and
      count are those of its frames; the segments found so far are runs.\<close>
  "run_inv cfg fd off energy is_cry k st \<longleftrightarrow>
     (in_segment st \<longrightarrow>
        segment_start st < k \<and> segment_frames st = k - segment_start st \<and>
        segment_energy_sum st = sum_list (take (k - segment_start st) (drop (segment_start st) energy)) \<and>
        (\<forall>i. segment_start st \<le> i \<and> i < k \<longrightarrow> is_cry ! i)) \<and>
     (\<forall>x \<in> set (segments st). is_run_segment cfg fd off energy is_cry x)"

definition episode_of_group :: "(real \<times> real \<times> real) list \<Rightarrow> CryEpisode" where
  \<comment> \<open>The episode of a group of consecutive segments: from the start of the first to
      the end of the last, with the mean of their confidences.\<close>
  "episode_of_group g =
     \<lparr>CryEpisode.start_time = fst (hd g), end_time = fst (snd (last g)),
      duration = fst (snd (last g)) - fst (hd g),
      confidence = sum_list (map (\<lambda>x. snd (snd x)) g) / real (length g)\<rparr>"

definition sil_inv :: "real \<Rightarrow> nat \<Rightarrow> nat \<Rightarrow> sil_state \<Rightarrow> bool" where
  \<comment> \<open>Before frame \<open>k\<close> of \<open>n\<close>: an open silence started earlier, and the silences found
      so far start within the envelope and end at a time that is not negative.\<close>
  "sil_inv fd n k st \<longleftrightarrow>
     (in_silence st \<longrightarrow> silence_start st < k) \<and>
     (\<forall>x \<in> set (sil_segments st). 0 \<le> snd x \<and> fst x \<le> real n * fd)"

definition on_grid :: "real \<Rightarrow> nat \<Rightarrow> real \<times> real \<Rightarrow> bool" where
  \<comment> \<open>A pair of times that are whole numbers of frames, at most \<open>n\<close>.\<close>
  "on_grid fd n x \<longleftrightarrow> (\<exists>a b. a \<le> n \<and> b \<le> n \<and> x = (real a * fd, real b * fd))"

definition sil_grid :: "real \<Rightarrow> nat \<Rightarrow> nat \<Rightarrow> sil_state \<Rightarrow> bool" where
  \<comment> \<open>Before frame \<open>k\<close> of \<open>n\<close>: an open silence started earlier, and the silences found
      so far start and end at whole numbers of frames.\<close>
  "sil_grid fd n k st \<longleftrightarrow>
     (in_silence st \<longrightarrow> silence_start st < k) \<and>
     (\<forall>x \<in> set (sil_segments st). on_grid fd n x)"

definition audio_of_unit ::
  "CryUnitDetector \<Rightarrow> real list \<Rightarrow> real \<Rightarrow> real \<Rightarrow> CryUnit \<Rightarrow> real list" where
  \<comment> \<open>The audio of a unit of the episode from \<open>s\<close> to \<open>e\<close>: the samples of the episode
      audio from the start of the unit to its end, both counted from the start of the
      episode.\<close>
  "audio_of_unit cfg y s e u =
     py_slice (episode_slice cfg y s e)
       (py_int ((CryUnit.start_time u - s) * real_of_int (CryUnitDetector.sr cfg)))
       (py_int ((CryUnit.end_time u - s) * real_of_int (CryUnitDetector.sr cfg)))"

section \<open>Episode detection: order, merging and confidence\<close>

subsection \<open>The merge loop keeps the episodes ordered\<close>

lemma episodes_ordered_snoc:
  assumes "episodes_ordered eps"
    and "\<forall>ep \<in> set eps. CryEpisode.start_time ep \<le> cs"
    and "eps \<noteq> [] \<longrightarrow> CryEpisode.end_time (last eps) < cs"
  shows "episodes_ordered (eps @ [make_episode cs ce confs])"
  using assms
  by (auto simp: episodes_ordered_def sorted_append successively_append_iff make_episode_def)

lemma merge_loop_ordered:
  assumes "0 \<le> mg"
    and "sorted (map fst rest)"
    and "\<forall>x \<in> set rest. cs \<le> fst x"
    and "episodes_ordered eps"
    and "\<forall>ep \<in> set eps. CryEpisode.start_time ep \<le> cs"
    and "eps \<noteq> [] \<longrightarrow> CryEpisode.end_time (last eps) < cs"
  shows "episodes_ordered (merge_loop mg rest cs ce confs eps)"
  using assms
proof (induction rest arbitrary: cs ce confs eps)
  case Nil
  then show ?case by (simp add: episodes_ordered_snoc)
next
  case (Cons x rest)
  obtain s e c where x: "x = (s, e, c)" by (cases x)
  show ?case
  proof (cases "s - ce \<le> mg")
    case True
    have "episodes_ordered (merge_loop mg rest cs e (confs @ [c]) eps)"
      using Cons.prems by (intro Cons.IH) auto
    with True x show ?thesis by simp
  next
    case False
    let ?eps = "eps @ [make_episode cs ce confs]"
    have lt: "ce < s" using False Cons.prems(1) by linarith
    have cs_s: "cs \<le> s" using Cons.prems(3) x by simp
    have "episodes_ordered (merge_loop mg rest s e [c] ?eps)"
    proof (intro Cons.IH)
      show "0 \<le> mg" by fact
      show "sorted (map fst rest)" using Cons.prems(2) by simp
      show "\<forall>x\<in>set rest. s \<le> fst x" using Cons.prems(2) x by auto
      show "episodes_ordered ?eps" using Cons.prems by (intro episodes_ordered_snoc) auto
      show "\<forall>ep\<in>set ?eps. CryEpisode.start_time ep \<le> s"
        using Cons.prems(5) cs_s by (auto simp: make_episode_def)
      show "?eps \<noteq> [] \<longrightarrow> CryEpisode.end_time (last ?eps) < s"
        using lt by (simp add: make_episode_def)
    qed
    with False x show ?thesis by simp
  qed
qed

lemma merge_segments_ordered:
  assumes "0 \<le> max_gap cfg"
  shows "episodes_ordered (merge_segments_to_episodes cfg segs)"
proof (cases "sort_key fst segs")
  case Nil
  then show ?thesis by (simp add: merge_segments_to_episodes_def episodes_ordered_def)
next
  case (Cons x rest)
  obtain s e c where x: "x = (s, e, c)" by (cases x)
  have srt: "sorted (map fst (x # rest))" using Cons[symmetric] by simp
  have "episodes_ordered (merge_loop (max_gap cfg) rest s e [c] [])"
    using assms srt x by (intro merge_loop_ordered) (auto simp: episodes_ordered_def)
  with Cons x show ?thesis
    by (auto simp: merge_segments_to_episodes_def episodes_ordered_def)
qed

subsection \<open>A tone of one second\<close>

lemma length_tone: "length (tone a n) = n"
  by (simp add: tone_def)

lemma tone_segments:
  "detect_cry_segments_from default_detector (replicate 44 (1/10)) (replicate 44 1000) 0
     = [(0, 11264 / 11025, 1)]"
  by code_simp

lemma tone_recording_segments:
  "detect_cry_segments (tone_lib 1 (1/10)) default_detector (tone (1/10) 22050) 0
     = [(0, 11264 / 11025, 1)]"
proof -
  let ?lib = "tone_lib 1 (1/10)"
  let ?y = "tone (1/10) 22050"
  have sr: "CryDetector.sr default_detector = 22050"
    by (simp add: default_detector_def)
  have fc: "frame_count 22050 = 44" by (simp add: frame_count_def)
  have e: "rms ?lib ?y = replicate 44 (1/10)"
    and c: "spectral_centroid ?lib ?y 22050 = replicate 44 1000"
    using fc by (simp_all add: tone_lib_def length_tone)
  show ?thesis
    unfolding detect_cry_segments_def sr e c by (rule tone_segments)
qed

lemma tone_recording_episodes:
  "detect_from_file (tone_lib 1 (1/10)) default_detector ''rec'' =
     [\<lparr>CryEpisode.start_time = 0, end_time = 11264 / 11025, duration = 11264 / 11025,
       confidence = 1\<rparr>]"
proof -
  let ?lib = "tone_lib 1 (1/10)"
  have sr: "CryDetector.sr default_detector = 22050"
    and cd: "chunk_duration default_detector = 60"
    by (simp_all add: default_detector_def)
  have ceil: "\<lceil>(1::real) / 60\<rceil> = 1" by (simp add: ceiling_eq_iff)
  have offs: "chunk_offsets (get_duration ?lib ''rec'') 60 = [0]"
    by (simp add: chunk_offsets_def tone_lib_def ceil)
  have ld: "load ?lib ''rec'' 22050 0 60 = tone (1/10) 22050"
    by (simp add: tone_lib_def)
  show ?thesis
    unfolding detect_from_file_def Let_def sr cd offs
    by (simp add: ld tone_recording_segments merge_segments_to_episodes_def
          make_episode_def np_mean_def)
qed

lemma merge_three_segments:
  "merge_segments_to_episodes default_detector [(5, 6, 1), (0, 1, 1/2), (3/2, 2, 1)] =
     [\<lparr>CryEpisode.start_time = 0, end_time = 2, duration = 2, confidence = 3/4\<rparr>,
      \<lparr>CryEpisode.start_time = 5, end_time = 6, duration = 1, confidence = 1\<rparr>]"
  by (simp add: merge_segments_to_episodes_def make_episode_def default_detector_def
        np_mean_def)

subsection \<open>Claim C1\<close>

text \<open>
  C1. Whatever the recording, the episodes the detector returns, from
  \<open>_merge_segments_to_episodes\<close> on any list of segments and so from \<open>detect_from_file\<close>,
  are sorted by start time, every episode starts strictly after the episode before it has
  ended, and the duration of every episode is its end time minus its start time. The
  merge gap of the detector is not negative (the default is one second).
\<close>

theorem episodes_time_ordered:
  assumes "0 \<le> max_gap cfg"
    and "eps = merge_segments_to_episodes cfg segs \<or> eps = detect_from_file lib cfg path"
  shows "sorted (map CryEpisode.start_time eps) \<and>
         (\<forall>i. Suc i < length eps \<longrightarrow>
              CryEpisode.end_time (eps ! i) < CryEpisode.start_time (eps ! Suc i)) \<and>
         (\<forall>ep \<in> set eps.
              CryEpisode.duration ep = CryEpisode.end_time ep - CryEpisode.start_time ep)"
proof -
  have "episodes_ordered eps"
    using assms(2) merge_segments_ordered[OF assms(1)]
    by (auto simp: detect_from_file_def Let_def)
  then show ?thesis
    by (simp add: episodes_ordered_def successively_conv_nth list_all_iff)
qed

theorem episodes_time_ordered_witness:
  "0 \<le> max_gap default_detector \<and>
   length (merge_segments_to_episodes default_detector [(5, 6, 1), (0, 1, 1/2), (3/2, 2, 1)]) = 2 \<and>
   map CryEpisode.start_time
     (merge_segments_to_episodes default_detector [(5, 6, 1), (0, 1, 1/2), (3/2, 2, 1)]) = [0, 5] \<and>
   CryEpisode.end_time
     (merge_segments_to_episodes default_detector [(5, 6, 1), (0, 1, 1/2), (3/2, 2, 1)] ! 0)
   < CryEpisode.start_time
     (merge_segments_to_episodes default_detector [(5, 6, 1), (0, 1, 1/2), (3/2, 2, 1)] ! Suc 0) \<and>
   sorted (map CryEpisode.start_time
     (merge_segments_to_episodes default_detector [(5, 6, 1), (0, 1, 1/2), (3/2, 2, 1)]))"
proof -
  let ?segs = "[(5, 6, 1), (0, 1, 1/2), (3/2, 2, 1)] :: (real \<times> real \<times> real) list"
  let ?eps = "merge_segments_to_episodes default_detector ?segs"
  have gap: "0 \<le> max_gap default_detector" by (simp add: default_detector_def)
  have len: "length ?eps = 2" by (simp add: merge_three_segments)
  have ordered: "sorted (map CryEpisode.start_time ?eps) \<and>
         (\<forall>i. Suc i < length ?eps \<longrightarrow>
              CryEpisode.end_time (?eps ! i) < CryEpisode.start_time (?eps ! Suc i)) \<and>
         (\<forall>ep \<in> set ?eps.
              CryEpisode.duration ep = CryEpisode.end_time ep - CryEpisode.start_time ep)"
    by (rule episodes_time_ordered[OF gap disjI1[OF refl]])
  then have "CryEpisode.end_time (?eps ! 0) < CryEpisode.start_time (?eps ! Suc 0)"
    using len by simp
  moreover have "map CryEpisode.start_time ?eps = [0, 5]" by (simp add: merge_three_segments)
  ultimately show ?thesis using gap len ordered by simp
qed

subsection \<open>Claim C2\<close>

text \<open>
  C2, as the source has it. For two segments in the order of their start times, a gap of
  at most \<open>max_gap\<close> between the start of the second and the end of the first gives
  exactly one episode, a larger gap gives exactly two, one for each segment. The one
  episode runs from the start of the first segment to the end of the second, with the
  mean of the two confidences; it covers both segments when the second segment ends no
  earlier than the first. The result does not depend on the order in which the two
  segments are given.
\<close>

theorem merge_two_segments:
  assumes "fst a \<le> fst b"
  shows "merge_segments_to_episodes cfg [a, b] =
           (if fst b - fst (snd a) \<le> max_gap cfg
            then [\<lparr>CryEpisode.start_time = fst a, end_time = fst (snd b),
                   duration = fst (snd b) - fst a,
                   confidence = np_mean [snd (snd a), snd (snd b)]\<rparr>]
            else [\<lparr>CryEpisode.start_time = fst a, end_time = fst (snd a),
                   duration = fst (snd a) - fst a, confidence = np_mean [snd (snd a)]\<rparr>,
                  \<lparr>CryEpisode.start_time = fst b, end_time = fst (snd b),
                   duration = fst (snd b) - fst b, confidence = np_mean [snd (snd b)]\<rparr>]) \<and>
         (fst a < fst b \<longrightarrow>
            merge_segments_to_episodes cfg [b, a] = merge_segments_to_episodes cfg [a, b]) \<and>
         (fst b - fst (snd a) \<le> max_gap cfg \<and> fst (snd a) \<le> fst (snd b) \<longrightarrow>
            (\<exists>ep. merge_segments_to_episodes cfg [a, b] = [ep] \<and>
                  CryEpisode.start_time ep \<le> fst a \<and> CryEpisode.start_time ep \<le> fst b \<and>
                  fst (snd a) \<le> CryEpisode.end_time ep \<and>
                  fst (snd b) \<le> CryEpisode.end_time ep))"
  using assms
  by (cases a; cases b) (simp add: merge_segments_to_episodes_def make_episode_def)

theorem merge_two_segments_witness:
  "fst (0::real, 1::real, 1/2::real) \<le> fst (13/10::real, 2::real, 1::real) \<and>
   merge_segments_to_episodes default_detector [(0, 1, 1/2), (13/10, 2, 1)] =
     [\<lparr>CryEpisode.start_time = 0, end_time = 2, duration = 2, confidence = 3/4\<rparr>] \<and>
   merge_segments_to_episodes default_detector [(13/10, 2, 1), (0, 1, 1/2)] =
     [\<lparr>CryEpisode.start_time = 0, end_time = 2, duration = 2, confidence = 3/4\<rparr>] \<and>
   fst (0::real, 1::real, 1/2::real) \<le> fst (5/2::real, 3::real, 1::real) \<and>
   merge_segments_to_episodes default_detector [(0, 1, 1/2), (5/2, 3, 1)] =
     [\<lparr>CryEpisode.start_time = 0, end_time = 1, duration = 1, confidence = 1/2\<rparr>,
      \<lparr>CryEpisode.start_time = 5/2, end_time = 3, duration = 1/2, confidence = 1\<rparr>]"
proof -
  have le1: "fst (0::real, 1::real, 1/2::real) \<le> fst (13/10::real, 2::real, 1::real)"
    and le2: "fst (0::real, 1::real, 1/2::real) \<le> fst (5/2::real, 3::real, 1::real)"
    by simp_all
  show ?thesis
    using merge_two_segments[OF le1, of default_detector]
          merge_two_segments[OF le2, of default_detector]
    by (simp add: default_detector_def np_mean_def)
qed

text \<open>
  C2 as stated fails where the second segment lies inside the first: the gap is negative,
  the two segments become one episode, and the episode ends with the second segment, at
  2, before the first segment ends, at 10.
\<close>

theorem merge_two_segments_not_covering:
  "(1::real) - 10 \<le> max_gap default_detector \<and>
   map CryEpisode.end_time
     (merge_segments_to_episodes default_detector [(0, 10, 1), (1, 2, 1)]) = [2] \<and>
   (2::real) < 10"
  by (simp add: merge_segments_to_episodes_def make_episode_def default_detector_def)

subsection \<open>Confidence\<close>

lemma sum_list_unit_bounds:
  "\<forall>x \<in> set xs. 0 \<le> x \<and> x \<le> (1::real) \<Longrightarrow>
     0 \<le> sum_list xs \<and> sum_list xs \<le> real (length xs)"
  by (induction xs) auto

lemma np_mean_unit:
  assumes "\<forall>x \<in> set xs. 0 \<le> x \<and> x \<le> (1::real)" and "xs \<noteq> []"
  shows "0 \<le> np_mean xs \<and> np_mean xs \<le> 1"
proof -
  have "0 < real (length xs)" using assms(2) by simp
  then show ?thesis
    using sum_list_unit_bounds[OF assms(1)] by (simp add: np_mean_def)
qed

lemma merge_loop_confidence:
  assumes "\<forall>x \<in> set rest. 0 \<le> snd (snd x) \<and> snd (snd x) \<le> 1"
    and "\<forall>c \<in> set confs. 0 \<le> c \<and> c \<le> 1" and "confs \<noteq> []"
    and "\<forall>ep \<in> set eps. 0 \<le> confidence ep \<and> confidence ep \<le> 1"
  shows "\<forall>ep \<in> set (merge_loop mg rest cs ce confs eps).
           0 \<le> confidence ep \<and> confidence ep \<le> 1"
  using assms
proof (induction rest arbitrary: cs ce confs eps)
  case Nil
  then show ?case using np_mean_unit[of confs] by (auto simp: make_episode_def)
next
  case (Cons x rest)
  obtain s e c where x: "x = (s, e, c)" by (cases x)
  have c: "0 \<le> c \<and> c \<le> 1" using Cons.prems(1) x by simp
  show ?case
  proof (cases "s - ce \<le> mg")
    case True
    have "\<forall>ep \<in> set (merge_loop mg rest cs e (confs @ [c]) eps).
            0 \<le> confidence ep \<and> confidence ep \<le> 1"
      using Cons.prems c by (intro Cons.IH) auto
    with True x show ?thesis by simp
  next
    case False
    have "\<forall>ep \<in> set (merge_loop mg rest s e [c] (eps @ [make_episode cs ce confs])).
            0 \<le> confidence ep \<and> confidence ep \<le> 1"
      using Cons.prems c np_mean_unit[of confs]
      by (intro Cons.IH) (auto simp: make_episode_def)
    with False x show ?thesis by simp
  qed
qed

lemma merge_segments_confidence:
  assumes "\<forall>x \<in> set segs. 0 \<le> snd (snd x) \<and> snd (snd x) \<le> 1"
  shows "\<forall>ep \<in> set (merge_segments_to_episodes cfg segs).
           0 \<le> confidence ep \<and> confidence ep \<le> 1"
proof (cases "sort_key fst segs")
  case Nil
  then show ?thesis by (simp add: merge_segments_to_episodes_def)
next
  case (Cons x rest)
  obtain s e c where x: "x = (s, e, c)" by (cases x)
  have "set (x # rest) = set segs" using Cons[symmetric] by simp
  then have all: "\<forall>y \<in> set (x # rest). 0 \<le> snd (snd y) \<and> snd (snd y) \<le> 1"
    using assms by blast
  have "\<forall>ep \<in> set (merge_loop (max_gap cfg) rest s e [c] []).
          0 \<le> confidence ep \<and> confidence ep \<le> 1"
    using all x by (intro merge_loop_confidence) auto
  with Cons x show ?thesis
    by (auto simp: merge_segments_to_episodes_def)
qed

lemma close_segment_confidence:
  assumes "0 < energy_threshold cfg" and "seg_inv st"
  shows "\<forall>x \<in> set (close_segment cfg fd off i st). 0 \<le> snd (snd x) \<and> snd (snd x) \<le> 1"
  using assms by (auto simp: close_segment_def seg_inv_def Let_def)

lemma seg_step_inv:
  assumes "0 < energy_threshold cfg" and "seg_inv st" and "snd ic \<longrightarrow> 0 \<le> energy ! fst ic"
  shows "seg_inv (seg_step cfg fd off energy ic st)"
proof -
  obtain i cry where ic: "ic = (i, cry)" by (cases ic)
  have cl: "\<forall>x \<in> set (close_segment cfg fd off i st). 0 \<le> snd (snd x) \<and> snd (snd x) \<le> 1"
    using close_segment_confidence[OF assms(1,2)] .
  show ?thesis
    using assms(2,3) cl unfolding ic seg_step_def
    by (simp add: seg_inv_def)
qed

lemma fold_seg_step_inv:
  assumes "0 < energy_threshold cfg"
    and "\<forall>ic \<in> set ics. snd ic \<longrightarrow> 0 \<le> energy ! fst ic" and "seg_inv st"
  shows "seg_inv (fold (seg_step cfg fd off energy) ics st)"
  using assms(2,3)
proof (induction ics arbitrary: st)
  case Nil
  then show ?case by simp
next
  case (Cons ic ics)
  have "seg_inv (seg_step cfg fd off energy ic st)"
    using Cons.prems by (intro seg_step_inv[OF assms(1)]) auto
  then show ?case using Cons by simp
qed

lemma is_cry_frame_energy:
  assumes "ic \<in> set (List.enumerate 0 (is_cry_frame cfg energy centroid))" and "snd ic"
  shows "energy_threshold cfg < energy ! fst ic"
proof -
  obtain i cry where ic: "ic = (i, cry)" by (cases ic)
  have i: "i < length (is_cry_frame cfg energy centroid)"
    and cry: "cry = is_cry_frame cfg energy centroid ! i"
    using assms(1) unfolding ic by (auto simp: in_set_enumerate_eq)
  have "i < length energy" "i < length centroid"
    using i by (simp_all add: is_cry_frame_def)
  then show ?thesis using assms(2) cry ic by (simp add: is_cry_frame_def)
qed

lemma detect_cry_segments_from_confidence:
  assumes "0 < energy_threshold cfg"
  shows "\<forall>x \<in> set (detect_cry_segments_from cfg energy centroid off).
           0 \<le> snd (snd x) \<and> snd (snd x) \<le> 1"
proof -
  let ?fd = "real_of_int 512 / real_of_int (CryDetector.sr cfg)"
  let ?st = "fold (seg_step cfg ?fd off energy)
                (List.enumerate 0 (is_cry_frame cfg energy centroid)) seg_init"
  have "\<forall>ic \<in> set (List.enumerate 0 (is_cry_frame cfg energy centroid)).
          snd ic \<longrightarrow> 0 \<le> energy ! fst ic"
    using is_cry_frame_energy[of _ cfg energy centroid] assms by fastforce
  then have inv: "seg_inv ?st"
    by (intro fold_seg_step_inv[OF assms]) (simp_all add: seg_inv_def seg_init_def)
  then have "\<forall>x \<in> set (segments ?st). 0 \<le> snd (snd x) \<and> snd (snd x) \<le> 1"
    by (simp add: seg_inv_def)
  then show ?thesis
    using close_segment_confidence[OF assms inv]
    by (simp add: detect_cry_segments_from_def Let_def)
qed

subsection \<open>Segments are runs, episodes are groups of segments\<close>

lemma close_segment_run:
  assumes "run_inv cfg fd off energy is_cry k st" and "in_segment st"
    and "k \<le> length is_cry" and "length is_cry \<le> length energy"
  shows "\<forall>x \<in> set (close_segment cfg fd off k st). is_run_segment cfg fd off energy is_cry x"
proof -
  let ?a = "segment_start st"
  have a: "?a < k" and fr: "segment_frames st = k - ?a"
    and sm: "segment_energy_sum st = sum_list (take (k - ?a) (drop ?a energy))"
    and cry: "\<forall>i. ?a \<le> i \<and> i < k \<longrightarrow> is_cry ! i"
    and old: "\<forall>x \<in> set (segments st). is_run_segment cfg fd off energy is_cry x"
    using assms(1,2) by (simp_all add: run_inv_def)
  have conf: "segment_energy_sum st / real (segment_frames st) =
                sum_list (take (k - ?a) (drop ?a energy)) / real (k - ?a)"
    unfolding sm fr ..
  have "is_run_segment cfg fd off energy is_cry
          (off + real ?a * fd, off + real k * fd,
           min (segment_energy_sum st / real (segment_frames st) / energy_threshold cfg) 1)"
    unfolding is_run_segment_def run_confidence_def conf
    using a assms(3) cry by blast
  then show ?thesis using old by (auto simp: close_segment_def Let_def)
qed

lemma seg_step_run:
  assumes "run_inv cfg fd off energy is_cry k st"
    and "k < length is_cry" and "length is_cry \<le> length energy"
  shows "run_inv cfg fd off energy is_cry (Suc k) (seg_step cfg fd off energy (k, is_cry ! k) st)"
proof -
  have ke: "k < length energy" using assms(2,3) by simp
  consider (start) "is_cry ! k" "\<not> in_segment st"
    | (cont) "is_cry ! k" "in_segment st"
    | (stop) "\<not> is_cry ! k" "in_segment st"
    | (idle) "\<not> is_cry ! k" "\<not> in_segment st" by blast
  then show ?thesis
  proof cases
    case start
    have "sum_list (take (Suc k - k) (drop k energy)) = energy ! k"
      using ke by (simp add: take_Suc_conv_app_nth[of 0] hd_drop_conv_nth take_Suc)
    then show ?thesis
      using start assms(1) by (auto simp: run_inv_def seg_step_def le_less_Suc_eq)
  next
    case cont
    let ?a = "segment_start st"
    have a: "?a < k" and fr: "segment_frames st = k - ?a"
      and sm: "segment_energy_sum st = sum_list (take (k - ?a) (drop ?a energy))"
      and cry: "\<forall>i. ?a \<le> i \<and> i < k \<longrightarrow> is_cry ! i"
      using assms(1) cont(2) by (simp_all add: run_inv_def)
    have "k - ?a < length (drop ?a energy)" using ke a by simp
    then have "take (Suc (k - ?a)) (drop ?a energy) = take (k - ?a) (drop ?a energy) @ [drop ?a energy ! (k - ?a)]"
      by (rule take_Suc_conv_app_nth)
    moreover have "drop ?a energy ! (k - ?a) = energy ! k" using a ke by simp
    moreover have "Suc k - ?a = Suc (k - ?a)" using a by simp
    ultimately have "sum_list (take (Suc k - ?a) (drop ?a energy)) = segment_energy_sum st + energy ! k"
      using sm by simp
    moreover have "\<forall>i. ?a \<le> i \<and> i < Suc k \<longrightarrow> is_cry ! i"
      using cry cont(1) by (auto simp: less_Suc_eq)
    ultimately show ?thesis
      using cont assms(1) a fr by (auto simp: run_inv_def seg_step_def)
  next
    case stop
    have "\<forall>x \<in> set (close_segment cfg fd off k st). is_run_segment cfg fd off energy is_cry x"
      using assms stop(2) by (intro close_segment_run) simp_all
    then show ?thesis using stop by (simp add: run_inv_def seg_step_def)
  next
    case idle
    then show ?thesis using assms(1) by (simp add: run_inv_def seg_step_def)
  qed
qed

lemma fold_seg_step_run:
  assumes "length is_cry \<le> length energy"
    and "is_cry = pre @ xs" and "k = length pre"
    and "run_inv cfg fd off energy is_cry k st"
  shows "run_inv cfg fd off energy is_cry (length is_cry)
           (fold (seg_step cfg fd off energy) (List.enumerate k xs) st)"
  using assms(2-4)
proof (induction xs arbitrary: pre k st)
  case Nil
  then show ?case by simp
next
  case (Cons x xs)
  have k: "k < length is_cry" and x: "x = is_cry ! k" using Cons.prems(1,2) by simp_all
  have step: "run_inv cfg fd off energy is_cry (Suc k) (seg_step cfg fd off energy (k, x) st)"
    unfolding x using Cons.prems(3) k assms(1) by (rule seg_step_run)
  have "run_inv cfg fd off energy is_cry (length is_cry)
          (fold (seg_step cfg fd off energy) (List.enumerate (Suc k) xs)
             (seg_step cfg fd off energy (k, x) st))"
    using Cons.prems(1,2) step by (intro Cons.IH[of "pre @ [x]"]) simp_all
  then show ?case by simp
qed

lemma detect_cry_segments_from_runs:
  "\<forall>x \<in> set (detect_cry_segments_from cfg energy centroid off).
     is_run_segment cfg (real_of_int 512 / real_of_int (CryDetector.sr cfg)) off energy
       (is_cry_frame cfg energy centroid) x"
proof -
  let ?fd = "real_of_int 512 / real_of_int (CryDetector.sr cfg)"
  let ?c = "is_cry_frame cfg energy centroid"
  let ?st = "fold (seg_step cfg ?fd off energy) (List.enumerate 0 ?c) seg_init"
  have len: "length ?c \<le> length energy" by (simp add: is_cry_frame_def)
  have inv: "run_inv cfg ?fd off energy ?c (length ?c) ?st"
    using len by (intro fold_seg_step_run[of _ _ "[]"]) (simp_all add: run_inv_def seg_init_def)
  then have a: "\<forall>x \<in> set (segments ?st). is_run_segment cfg ?fd off energy ?c x"
    by (simp add: run_inv_def)
  have b: "in_segment ?st \<longrightarrow>
        (\<forall>x \<in> set (close_segment cfg ?fd off (length ?c) ?st). is_run_segment cfg ?fd off energy ?c x)"
    using inv len by (auto intro!: close_segment_run[rule_format])
  show ?thesis
    using a b by (simp add: detect_cry_segments_from_def Let_def)
qed

lemma merge_loop_groups:
  assumes "g \<noteq> []"
  shows "\<exists>gs. concat gs = g @ rest \<and> [] \<notin> set gs \<and>
           merge_loop mg rest (fst (hd g)) (fst (snd (last g))) (map (\<lambda>x. snd (snd x)) g) eps
             = eps @ map episode_of_group gs"
  using assms
proof (induction rest arbitrary: g eps)
  case Nil
  have "concat [g] = g @ []" "[] \<notin> set [g]" using Nil by simp_all
  moreover have "merge_loop mg [] (fst (hd g)) (fst (snd (last g))) (map (\<lambda>x. snd (snd x)) g) eps
                   = eps @ map episode_of_group [g]"
    by (simp add: episode_of_group_def make_episode_def np_mean_def)
  ultimately show ?case by blast
next
  case (Cons x rest)
  obtain s e c where x: "x = (s, e, c)" by (cases x)
  show ?case
  proof (cases "s - fst (snd (last g)) \<le> mg")
    case True
    let ?g = "g @ [x]"
    from Cons.IH[of ?g eps] obtain gs where gs: "concat gs = ?g @ rest" "[] \<notin> set gs"
      "merge_loop mg rest (fst (hd ?g)) (fst (snd (last ?g))) (map (\<lambda>x. snd (snd x)) ?g) eps
         = eps @ map episode_of_group gs" by auto
    have "merge_loop mg (x # rest) (fst (hd g)) (fst (snd (last g))) (map (\<lambda>x. snd (snd x)) g) eps
            = eps @ map episode_of_group gs"
      using gs(3) True x Cons.prems by simp
    moreover have "concat gs = g @ x # rest" using gs(1) by simp
    ultimately show ?thesis using gs(2) by blast
  next
    case False
    let ?eps = "eps @ [episode_of_group g]"
    from Cons.IH[of "[x]" ?eps] obtain gs where gs: "concat gs = [x] @ rest" "[] \<notin> set gs"
      "merge_loop mg rest (fst (hd [x])) (fst (snd (last [x]))) (map (\<lambda>x. snd (snd x)) [x]) ?eps
         = ?eps @ map episode_of_group gs" by auto
    have "merge_loop mg (x # rest) (fst (hd g)) (fst (snd (last g))) (map (\<lambda>x. snd (snd x)) g) eps
            = eps @ map episode_of_group (g # gs)"
      using gs(3) False x by (simp add: episode_of_group_def make_episode_def np_mean_def)
    moreover have "concat (g # gs) = g @ x # rest" using gs(1) by simp
    moreover have "[] \<notin> set (g # gs)" using gs(2) Cons.prems by simp
    ultimately show ?thesis by blast
  qed
qed

lemma merge_segments_groups:
  "\<exists>gs. concat gs = sort_key fst segs \<and> [] \<notin> set gs \<and>
        merge_segments_to_episodes cfg segs = map episode_of_group gs"
proof (cases "sort_key fst segs")
  case Nil
  then have "segs = []" by (metis length_sort list.size(3) length_0_conv)
  then have "concat [] = sort_key fst segs \<and> [] \<notin> set ([] :: (real \<times> real \<times> real) list list) \<and>
        merge_segments_to_episodes cfg segs = map episode_of_group []"
    by (simp add: merge_segments_to_episodes_def)
  then show ?thesis by blast
next
  case (Cons x rest)
  obtain s e c where x: "x = (s, e, c)" by (cases x)
  have ne: "segs \<noteq> []" using Cons by auto
  from merge_loop_groups[of "[x]" rest "max_gap cfg" "[]"] obtain gs where
    gs: "concat gs = [x] @ rest" "[] \<notin> set gs"
      "merge_loop (max_gap cfg) rest (fst (hd [x])) (fst (snd (last [x])))
         (map (\<lambda>x. snd (snd x)) [x]) [] = [] @ map episode_of_group gs" by auto
  have "merge_segments_to_episodes cfg segs = map episode_of_group gs"
    using gs(3) ne Cons x by (simp add: merge_segments_to_episodes_def)
  then show ?thesis using gs(1,2) Cons by auto
qed

subsection \<open>Claim C8\<close>

text \<open>
  C8. With a positive energy threshold (the default is 0.02), every segment of a chunk is
  a run of candidate frames whose confidence is the mean energy of the frames of the run
  (their sum over their number) divided by the threshold and capped at 1, and it lies
  between 0 and 1. The episodes made of a list of segments are those of groups of
  consecutive segments of the sorted list, each with the mean of the confidences of its
  group (their sum over their number). The confidence of every episode the detector
  returns lies between 0 and 1. On one second of a tone of 1000 Hz at level 0.1 the
  detector finds one segment and one episode, of confidence 1; the segments of
  confidence 1/2 and 1 that are merged into one episode give it the confidence 3/4.
\<close>

theorem episode_confidence_unit_interval:
  assumes "0 < energy_threshold cfg"
  shows "(\<forall>x \<in> set (detect_cry_segments lib cfg y off).
            0 \<le> snd (snd x) \<and> snd (snd x) \<le> 1 \<and>
            is_run_segment cfg (real_of_int 512 / real_of_int (CryDetector.sr cfg)) off
              (rms lib y)
              (is_cry_frame cfg (rms lib y) (spectral_centroid lib y (CryDetector.sr cfg))) x) \<and>
         (\<exists>gs. concat gs = sort_key fst segs \<and> [] \<notin> set gs \<and>
               merge_segments_to_episodes cfg segs = map episode_of_group gs) \<and>
         (\<forall>ep \<in> set (detect_from_file lib cfg path).
            0 \<le> confidence ep \<and> confidence ep \<le> 1)"
proof -
  have seg: "\<forall>x \<in> set (detect_cry_segments lib cfg y off).
               0 \<le> snd (snd x) \<and> snd (snd x) \<le> 1" for y off
    using detect_cry_segments_from_confidence[OF assms] by (simp add: detect_cry_segments_def)
  have run: "\<forall>x \<in> set (detect_cry_segments lib cfg y off).
            is_run_segment cfg (real_of_int 512 / real_of_int (CryDetector.sr cfg)) off
              (rms lib y)
              (is_cry_frame cfg (rms lib y) (spectral_centroid lib y (CryDetector.sr cfg))) x"
    using detect_cry_segments_from_runs by (simp add: detect_cry_segments_def)
  have eps: "\<forall>ep \<in> set (detect_from_file lib cfg path).
            0 \<le> confidence ep \<and> confidence ep \<le> 1"
    unfolding detect_from_file_def Let_def
    using seg by (intro merge_segments_confidence) auto
  show ?thesis
    using seg[of y off] run merge_segments_groups[of segs cfg] eps by blast
qed

theorem episode_confidence_unit_interval_witness:
  "0 < energy_threshold default_detector \<and>
   detect_cry_segments (tone_lib 1 (1/10)) default_detector (tone (1/10) 22050) 0
     = [(0, 11264 / 11025, 1)] \<and>
   is_run_segment default_detector (real_of_int 512 / real_of_int (CryDetector.sr default_detector))
     0 (rms (tone_lib 1 (1/10)) (tone (1/10) 22050))
     (is_cry_frame default_detector (rms (tone_lib 1 (1/10)) (tone (1/10) 22050))
        (spectral_centroid (tone_lib 1 (1/10)) (tone (1/10) 22050)
           (CryDetector.sr default_detector)))
     (0, 11264 / 11025, 1) \<and>
   merge_segments_to_episodes default_detector [(5, 6, 1), (0, 1, 1/2), (3/2, 2, 1)] =
     [\<lparr>CryEpisode.start_time = 0, end_time = 2, duration = 2, confidence = 3/4\<rparr>,
      \<lparr>CryEpisode.start_time = 5, end_time = 6, duration = 1, confidence = 1\<rparr>] \<and>
   detect_from_file (tone_lib 1 (1/10)) default_detector ''rec'' =
     [\<lparr>CryEpisode.start_time = 0, end_time = 11264 / 11025, duration = 11264 / 11025,
       confidence = 1\<rparr>] \<and>
   0 \<le> confidence (hd (detect_from_file (tone_lib 1 (1/10)) default_detector ''rec'')) \<and>
   confidence (hd (detect_from_file (tone_lib 1 (1/10)) default_detector ''rec'')) \<le> 1"
proof -
  have thr: "0 < energy_threshold default_detector" by (simp add: default_detector_def)
  note t = episode_confidence_unit_interval[OF thr, of "tone_lib 1 (1/10)" "tone (1/10) 22050" 0
             "[(5, 6, 1), (0, 1, 1/2), (3/2, 2, 1)]" "''rec''"]
  have run: "is_run_segment default_detector
     (real_of_int 512 / real_of_int (CryDetector.sr default_detector))
     0 (rms (tone_lib 1 (1/10)) (tone (1/10) 22050))
     (is_cry_frame default_detector (rms (tone_lib 1 (1/10)) (tone (1/10) 22050))
        (spectral_centroid (tone_lib 1 (1/10)) (tone (1/10) 22050)
           (CryDetector.sr default_detector)))
     (0, 11264 / 11025, 1)"
    using t unfolding tone_recording_segments by simp
  have ne: "detect_from_file (tone_lib 1 (1/10)) default_detector ''rec'' \<noteq> []"
    by (simp add: tone_recording_episodes)
  have "\<forall>ep \<in> set (detect_from_file (tone_lib 1 (1/10)) default_detector ''rec'').
            0 \<le> confidence ep \<and> confidence ep \<le> 1"
    using t by blast
  then have "0 \<le> confidence (hd (detect_from_file (tone_lib 1 (1/10)) default_detector ''rec''))
           \<and> confidence (hd (detect_from_file (tone_lib 1 (1/10)) default_detector ''rec'')) \<le> 1"
    using ne hd_in_set by blast
  then show ?thesis
    using thr tone_recording_segments run merge_three_segments tone_recording_episodes
    by simp
qed

section \<open>Unit segmentation: bounds, voicing and roll-up\<close>

subsection \<open>The steady recording, one second long\<close>

lemma fold_sil_step_no_silence:
  "\<forall>ix \<in> set ixs. \<not> snd ix \<Longrightarrow> \<not> in_silence st \<Longrightarrow> fold (sil_step cfg fd) ixs st = st"
  by (induction ixs arbitrary: st) (auto simp: sil_step_def)

lemma enumerate_all_False:
  assumes "\<forall>b \<in> set bs. \<not> b"
  shows "\<forall>ix \<in> set (List.enumerate n bs). \<not> snd ix"
proof
  fix ix assume "ix \<in> set (List.enumerate n bs)"
  then have "snd ix \<in> set bs"
    by (metis enumerate_eq_zip in_set_zipE prod.collapse)
  then show "\<not> snd ix" using assms by blast
qed

lemma find_silence_segments_none:
  assumes "\<forall>b \<in> set bs. \<not> b"
  shows "find_silence_segments cfg bs fd = []"
proof -
  have "fold (sil_step cfg fd) (List.enumerate 0 bs) sil_init = sil_init"
    using enumerate_all_False[OF assms] by (intro fold_sil_step_no_silence) (simp_all add: sil_init_def)
  then show ?thesis by (simp add: find_silence_segments_def sil_init_def)
qed

lemma py_slice_whole: "a = 0 \<Longrightarrow> int (length xs) \<le> b \<Longrightarrow> py_slice xs a b = xs"
  by (simp add: py_slice_def slice_index_def)

lemma rms_energy_replicate:
  assumes "0 < n" and "0 \<le> a"
  shows "rms_energy (replicate n a) = a"
proof -
  have "sum_list (map (\<lambda>x. x\<^sup>2) (replicate n a)) = real n * a\<^sup>2"
    by (simp add: sum_list_replicate)
  then have "np_mean (map (\<lambda>x. x\<^sup>2) (replicate n a)) = a\<^sup>2"
    using assms(1) by (simp add: np_mean_def)
  then show ?thesis using assms(2) by (simp add: rms_energy_def)
qed

lemma np_mean_replicate: "0 < n \<Longrightarrow> np_mean (replicate n a) = a"
  by (simp add: np_mean_def sum_list_replicate)

lemma fold_argmax_keep:
  "\<forall>ix \<in> set ixs. snd ix \<le> (bx::real) \<Longrightarrow>
     fold (\<lambda>(i, x) (bi, bx). if x > bx then (i, x) else (bi, bx)) ixs (bi, bx) = (bi, bx)"
  by (induction ixs) auto

lemma np_argmax_first:
  assumes "\<forall>x \<in> set xs. x \<le> m"
  shows "np_argmax (m # xs) = 0"
proof -
  have "\<forall>ix \<in> set (List.enumerate 0 (m # xs)). snd ix \<le> m"
    using assms by (auto simp: in_set_enumerate_eq nth_Cons split: nat.splits)
  then show ?thesis
    by (simp only: np_argmax_def list.sel fold_argmax_keep fst_conv)
qed

lemma steady_voiced:
  "classify_voicing default_unit_detector (steady_lib 1 (1/2)) (replicate 22050 (1/2))"
proof -
  have fc: "frame_count 22050 = 44" by (simp add: frame_count_def)
  have z: "np_mean (zero_crossing_rate (steady_lib 1 (1/2)) (replicate 22050 (1/2))) = 0"
    using fc by (simp add: steady_lib_def np_mean_replicate)
  have e: "rms_energy (replicate 22050 (1/2)) = 1/2"
    by (rule rms_energy_replicate) simp_all
  show ?thesis
    unfolding classify_voicing_def Let_def z e
    by (simp add: default_unit_detector_def)
qed

lemma steady_peak:
  "estimate_peak_frequency default_unit_detector (steady_lib 1 (1/2)) (replicate 22050 (1/2)) = 0"
proof -
  have "np_argmax (rfft_magnitude (steady_lib 1 (1/2)) (replicate 22050 (1/2))) = 0"
    unfolding steady_lib_def by (simp add: np_argmax_first)
  then show ?thesis by (simp add: estimate_peak_frequency_def Let_def)
qed

lemma steady_make_unit:
  "make_unit default_unit_detector (steady_lib 1 (1/2)) 0 (replicate 22050 (1/2))
     (replicate 44 (1/2)) (real_of_int 512 / real_of_int 22050) (0, 11264 / 11025) =
   Some \<lparr>CryUnit.start_time = 0, end_time = 11264 / 11025, duration = 11264 / 11025,
         is_voiced = True, mean_energy = 1/2, peak_frequency = 0\<rparr>"
proof -
  let ?y = "replicate 22050 (1/2::real)"
  let ?e = "replicate 44 (1/2::real)"
  have sr: "CryUnitDetector.sr default_unit_detector = 22050"
    and mu: "min_unit_duration default_unit_detector = 1/10"
    by (simp_all add: default_unit_detector_def)
  have ua: "py_slice ?y (py_int (0 * real_of_int 22050)) (py_int (11264 / 11025 * real_of_int 22050)) = ?y"
    by (simp add: py_int_def py_slice_whole)
  have ue: "py_slice ?e (py_int (0 / (real_of_int 512 / real_of_int 22050)))
              (py_int (11264 / 11025 / (real_of_int 512 / real_of_int 22050))) = ?e"
    by (simp add: py_int_def py_slice_whole)
  show ?thesis
    unfolding make_unit_def prod.case Let_def sr mu ua ue
    using steady_voiced steady_peak by (simp add: np_mean_replicate)
qed

lemma steady_recording_units:
  "detect_units_in_episode default_unit_detector (steady_lib 1 (1/2)) (replicate 22050 (1/2)) 0 1 =
     [\<lparr>CryUnit.start_time = 0, end_time = 11264 / 11025, duration = 11264 / 11025,
       is_voiced = True, mean_energy = 1/2, peak_frequency = 0\<rparr>]"
proof -
  let ?cfg = default_unit_detector and ?lib = "steady_lib 1 (1/2)"
  let ?y = "replicate 22050 (1/2::real)"
  let ?e = "replicate 44 (1/2::real)"
  let ?fd = "real_of_int 512 / real_of_int 22050"
  have sr: "CryUnitDetector.sr ?cfg = 22050" by (simp add: default_unit_detector_def)
  have audio: "episode_slice ?cfg ?y 0 1 = ?y"
    by (simp add: episode_slice_def sr py_int_def py_slice_whole)
  have fc: "frame_count 22050 = 44" by (simp add: frame_count_def)
  have energy: "rms ?lib ?y = ?e" using fc by (simp add: steady_lib_def)
  have e2: "energy_envelope ?lib ?y = ?e"
    using energy by (simp add: energy_envelope_def steady_lib_def)
  have sil: "find_silence_segments ?cfg (map (\<lambda>x. x < silence_threshold ?cfg) ?e) ?fd = []"
    by (rule find_silence_segments_none) (simp add: default_unit_detector_def)
  have bounds: "determine_unit_boundaries [] (real (length ?e) * ?fd) = [(0, 11264 / 11025)]"
    by (simp add: determine_unit_boundaries_def)
  have "detect_units_in_episode ?cfg ?lib ?y 0 1 =
          List.map_filter (make_unit ?cfg ?lib 0 ?y ?e ?fd) [(0, 11264 / 11025)]"
    unfolding detect_units_in_episode_def Let_def audio sr e2 sil bounds
    by simp
  then show ?thesis using steady_make_unit by (simp add: map_filter_def)
qed

subsection \<open>Where the units lie\<close>

lemma close_silence_inv:
  assumes "0 \<le> fd" and "sil_inv fd n k st" and "in_silence st" and "k \<le> n"
  shows "\<forall>x \<in> set (close_silence cfg fd k st). 0 \<le> snd x \<and> fst x \<le> real n * fd"
proof -
  have "silence_start st < k" using assms(2,3) by (simp add: sil_inv_def)
  then have "real (silence_start st) * fd \<le> real n * fd"
    using assms(1,4) by (intro mult_right_mono) simp_all
  moreover have "0 \<le> real k * fd" using assms(1) by simp
  ultimately show ?thesis
    using assms(2) by (auto simp: close_silence_def sil_inv_def Let_def)
qed

lemma sil_step_inv:
  assumes "0 \<le> fd" and "sil_inv fd n k st" and "k < n"
  shows "sil_inv fd n (Suc k) (sil_step cfg fd (k, b) st)"
proof -
  have cl: "in_silence st \<Longrightarrow>
      \<forall>x \<in> set (close_silence cfg fd k st). 0 \<le> snd x \<and> fst x \<le> real n * fd"
    using assms by (intro close_silence_inv) simp_all
  show ?thesis
    using assms(2) cl by (auto simp: sil_step_def sil_inv_def)
qed

lemma fold_sil_step_inv:
  assumes "0 \<le> fd" and "k + length bs = n" and "sil_inv fd n k st"
  shows "sil_inv fd n n (fold (sil_step cfg fd) (List.enumerate k bs) st)"
  using assms(2,3)
proof (induction bs arbitrary: k st)
  case Nil
  then show ?case by simp
next
  case (Cons b bs)
  have "sil_inv fd n (Suc k) (sil_step cfg fd (k, b) st)"
    using assms(1) Cons.prems by (intro sil_step_inv) simp_all
  then have "sil_inv fd n n (fold (sil_step cfg fd) (List.enumerate (Suc k) bs)
                               (sil_step cfg fd (k, b) st))"
    using Cons.prems(1) by (intro Cons.IH) simp_all
  then show ?case by simp
qed

lemma find_silence_segments_bounds:
  assumes "0 \<le> fd"
  shows "\<forall>x \<in> set (find_silence_segments cfg bs fd). 0 \<le> snd x \<and> fst x \<le> real (length bs) * fd"
proof -
  let ?st = "fold (sil_step cfg fd) (List.enumerate 0 bs) sil_init"
  have inv: "sil_inv fd (length bs) (length bs) ?st"
    using assms by (intro fold_sil_step_inv) (simp_all add: sil_inv_def sil_init_def)
  then have a: "\<forall>x \<in> set (sil_segments ?st). 0 \<le> snd x \<and> fst x \<le> real (length bs) * fd"
    by (simp add: sil_inv_def)
  have b: "in_silence ?st \<Longrightarrow>
        \<forall>x \<in> set (close_silence cfg fd (length bs) ?st). 0 \<le> snd x \<and> fst x \<le> real (length bs) * fd"
    using assms inv by (intro close_silence_inv) simp_all
  show ?thesis using a b by (simp add: find_silence_segments_def Let_def)
qed

lemma boundaries_loop_bounds:
  assumes "\<forall>x \<in> set segs. 0 \<le> snd x \<and> fst x \<le> tot"
    and "0 \<le> cur" and "\<forall>b \<in> set bs. 0 \<le> fst b \<and> snd b \<le> tot"
  shows "\<forall>b \<in> set (boundaries_loop segs tot cur bs). 0 \<le> fst b \<and> snd b \<le> tot"
  using assms
proof (induction segs arbitrary: cur bs)
  case Nil
  then show ?case by simp
next
  case (Cons x segs)
  obtain ss se where x: "x = (ss, se)" by (cases x)
  have "\<forall>b \<in> set (boundaries_loop segs tot se
                     (if ss > cur then bs @ [(cur, ss)] else bs)). 0 \<le> fst b \<and> snd b \<le> tot"
    using Cons.prems x by (intro Cons.IH) auto
  then show ?case using x by simp
qed

lemma determine_unit_boundaries_bounds:
  assumes "\<forall>x \<in> set segs. 0 \<le> snd x \<and> fst x \<le> tot"
  shows "\<forall>b \<in> set (determine_unit_boundaries segs tot). 0 \<le> fst b \<and> snd b \<le> tot"
  using boundaries_loop_bounds[OF assms, of 0 "[]"]
  by (simp add: determine_unit_boundaries_def)

lemma make_unit_times:
  assumes "make_unit cfg lib t0 audio energy fd b = Some u"
  shows "CryUnit.start_time u = t0 + fst b \<and> CryUnit.end_time u = t0 + snd b"
  using assms by (cases b) (auto simp: make_unit_def Let_def split: if_splits)

text \<open>
  Every unit starts no earlier than the episode, and ends no later than the envelope of
  the episode does: the number of its frames times the duration of a frame, counted from
  the start of the episode.
\<close>

lemma unit_bounds:
  assumes "0 < CryUnitDetector.sr cfg"
    and "u \<in> set (detect_units_in_episode cfg lib y s e)"
  shows "s \<le> CryUnit.start_time u \<and>
         CryUnit.end_time u \<le>
           s + real (length (energy_envelope lib (episode_slice cfg y s e)))
                 * (512 / real_of_int (CryUnitDetector.sr cfg))"
proof -
  let ?audio = "episode_slice cfg y s e"
  let ?fd = "real_of_int 512 / real_of_int (CryUnitDetector.sr cfg)"
  let ?energy = "energy_envelope lib ?audio"
  let ?frames = "map (\<lambda>x. x < silence_threshold cfg) ?energy"
  let ?tot = "real (length ?energy) * ?fd"
  let ?bs = "determine_unit_boundaries (find_silence_segments cfg ?frames ?fd) ?tot"
  have fd: "0 \<le> ?fd" using assms(1) by simp
  have "\<forall>x \<in> set (find_silence_segments cfg ?frames ?fd).
          0 \<le> snd x \<and> fst x \<le> real (length ?frames) * ?fd"
    using fd by (rule find_silence_segments_bounds)
  then have "\<forall>x \<in> set (find_silence_segments cfg ?frames ?fd). 0 \<le> snd x \<and> fst x \<le> ?tot"
    by simp
  then have bs: "\<forall>b \<in> set ?bs. 0 \<le> fst b \<and> snd b \<le> ?tot"
    by (rule determine_unit_boundaries_bounds)
  have "u \<in> set (List.map_filter (make_unit cfg lib s ?audio ?energy ?fd) ?bs)"
    using assms(2) by (simp add: detect_units_in_episode_def Let_def split: if_splits)
  then obtain b where b: "b \<in> set ?bs" "make_unit cfg lib s ?audio ?energy ?fd b = Some u"
    by (auto simp: map_filter_def)
  show ?thesis
    using make_unit_times[OF b(2)] bs b(1) by auto
qed

subsection \<open>Claim C3\<close>

text \<open>
  C3 says that every unit of an episode starts no earlier than the episode and ends no
  later than the episode. The source measures the episode in frames of the envelope:
  \<open>_determine_unit_boundaries\<close> receives \<open>len(energy) * frame_duration\<close> where its
  documentation asks for the duration of the episode, and the envelope has one frame more
  than the episode has whole hops. For the episode from 0 to 1 second of a steady
  recording at amplitude 0.5 the envelope has 44 frames, there is no silence, and the one
  unit returned ends at 44 * 512 / 22050 seconds, after the end of the episode.
\<close>

theorem unit_ends_after_episode:
  "map (\<lambda>u. (CryUnit.start_time u, CryUnit.end_time u))
     (detect_units_in_episode default_unit_detector (steady_lib 1 (1/2))
        (replicate 22050 (1/2)) 0 1) = [(0, 11264 / 11025)] \<and>
   (1::real) < 11264 / 11025"
  by (simp add: steady_recording_units)

subsection \<open>Unit boundaries are whole numbers of frames\<close>

lemma close_silence_grid:
  assumes "sil_grid fd n k st" and "in_silence st" and "k \<le> n"
  shows "\<forall>x \<in> set (close_silence cfg fd k st). on_grid fd n x"
proof -
  have "silence_start st < k" using assms(1,2) by (simp add: sil_grid_def)
  then have "on_grid fd n (real (silence_start st) * fd, real k * fd)"
    unfolding on_grid_def using assms(3) by (intro exI[of _ "silence_start st"] exI[of _ k]) simp
  then show ?thesis
    using assms(1) by (auto simp: close_silence_def sil_grid_def Let_def)
qed

lemma sil_step_grid:
  assumes "sil_grid fd n k st" and "k < n"
  shows "sil_grid fd n (Suc k) (sil_step cfg fd (k, b) st)"
proof -
  have cl: "in_silence st \<Longrightarrow> \<forall>x \<in> set (close_silence cfg fd k st). on_grid fd n x"
    using assms by (intro close_silence_grid) simp_all
  show ?thesis
    using assms(1) cl by (auto simp: sil_step_def sil_grid_def)
qed

lemma fold_sil_step_grid:
  assumes "k + length bs = n" and "sil_grid fd n k st"
  shows "sil_grid fd n n (fold (sil_step cfg fd) (List.enumerate k bs) st)"
  using assms
proof (induction bs arbitrary: k st)
  case Nil
  then show ?case by simp
next
  case (Cons b bs)
  have "sil_grid fd n (Suc k) (sil_step cfg fd (k, b) st)"
    using Cons.prems by (intro sil_step_grid) simp_all
  then have "sil_grid fd n n (fold (sil_step cfg fd) (List.enumerate (Suc k) bs)
                               (sil_step cfg fd (k, b) st))"
    using Cons.prems(1) by (intro Cons.IH) simp_all
  then show ?case by simp
qed

lemma find_silence_segments_grid:
  "\<forall>x \<in> set (find_silence_segments cfg bs fd). on_grid fd (length bs) x"
proof -
  let ?st = "fold (sil_step cfg fd) (List.enumerate 0 bs) sil_init"
  have inv: "sil_grid fd (length bs) (length bs) ?st"
    by (intro fold_sil_step_grid) (simp_all add: sil_grid_def sil_init_def)
  then have a: "\<forall>x \<in> set (sil_segments ?st). on_grid fd (length bs) x"
    by (simp add: sil_grid_def)
  have b: "in_silence ?st \<Longrightarrow>
        \<forall>x \<in> set (close_silence cfg fd (length bs) ?st). on_grid fd (length bs) x"
    using inv by (intro close_silence_grid) simp_all
  show ?thesis using a b by (simp add: find_silence_segments_def Let_def)
qed

lemma boundaries_loop_grid:
  assumes "\<forall>x \<in> set segs. on_grid fd n x"
    and "c \<le> n" and "\<forall>b \<in> set bs. on_grid fd n b"
  shows "\<forall>b \<in> set (boundaries_loop segs (real n * fd) (real c * fd) bs). on_grid fd n b"
  using assms
proof (induction segs arbitrary: c bs)
  case Nil
  have "on_grid fd n (real c * fd, real n * fd)"
    unfolding on_grid_def using Nil.prems(2) by (intro exI[of _ c] exI[of _ n]) simp
  then show ?case using Nil.prems(3) by simp
next
  case (Cons x segs)
  obtain a b where ab: "a \<le> n" "b \<le> n" "x = (real a * fd, real b * fd)"
    using Cons.prems(1) by (auto simp: on_grid_def)
  have new: "on_grid fd n (real c * fd, real a * fd)"
    unfolding on_grid_def using Cons.prems(2) ab(1) by (intro exI[of _ c] exI[of _ a]) simp
  have "\<forall>u \<in> set (boundaries_loop segs (real n * fd) (real b * fd)
                     (if real a * fd > real c * fd then bs @ [(real c * fd, real a * fd)] else bs)).
          on_grid fd n u"
    using Cons.prems ab new by (intro Cons.IH) auto
  then show ?case using ab(3) by simp
qed

lemma determine_unit_boundaries_grid:
  assumes "\<forall>x \<in> set segs. on_grid fd n x"
  shows "\<forall>b \<in> set (determine_unit_boundaries segs (real n * fd)). on_grid fd n b"
proof (cases "segs = []")
  case True
  have "on_grid fd n (0, real n * fd)"
    unfolding on_grid_def by (intro exI[of _ 0] exI[of _ n]) simp
  then show ?thesis using True by (simp add: determine_unit_boundaries_def)
next
  case False
  have "\<forall>b \<in> set (boundaries_loop segs (real n * fd) (real 0 * fd) []). on_grid fd n b"
    using assms by (intro boundaries_loop_grid) simp_all
  then show ?thesis using False by (simp add: determine_unit_boundaries_def)
qed

lemma py_slice_length:
  assumes "0 \<le> lo" and "0 \<le> hi"
  shows "length (py_slice xs lo hi) = min (nat hi) (length xs) - min (nat lo) (length xs)"
  using assms by (simp add: py_slice_def slice_index_def Let_def)

lemma grid_slice_long:
  fixes a c n N :: nat
  assumes "c \<le> n" and "n \<le> frame_count N" and "a < c"
  shows "(c - a - 1) * 512 \<le> min (c * 512) N - min (a * 512) N"
proof -
  have "c - 1 \<le> N div 512" using assms(1,2) by (simp add: frame_count_def)
  then have c1: "(c - 1) * 512 \<le> N"
    by (metis div_times_less_eq_dividend le_trans mult_le_mono1)
  have a1: "a * 512 \<le> (c - 1) * 512" using assms(3) by simp
  then have a2: "min (a * 512) N = a * 512" using c1 by simp
  show ?thesis
  proof (cases "c * 512 \<le> N")
    case True
    then show ?thesis unfolding a2 by (simp add: diff_mult_distrib)
  next
    case False
    then have "min (c * 512) N = N" by simp
    moreover have "(c - a - 1) * 512 = (c - 1) * 512 - a * 512"
      by (simp add: diff_mult_distrib)
    ultimately show ?thesis unfolding a2 using c1 by simp
  qed
qed


lemma py_int_of_nat: "py_int (real m) = int m"
  by (simp add: py_int_def)

lemma classify_voicing_iff:
  "classify_voicing cfg lib audio \<longleftrightarrow>
     real_of_int (CryUnitDetector.sr cfg) * 0.02 \<le> real (length audio) \<and>
     np_mean (zero_crossing_rate lib audio) < 0.1 \<and>
     0.01 \<le> rms_energy audio"
  by (auto simp: classify_voicing_def Let_def)

lemma make_unit_fields:
  assumes "make_unit cfg lib t0 audio energy fd (us, ue) = Some u"
  shows "CryUnit.start_time u = t0 + us" and "CryUnit.end_time u = t0 + ue"
    and "\<not> (t0 + ue) - (t0 + us) < min_unit_duration cfg"
    and "is_voiced u =
           classify_voicing cfg lib
             (py_slice audio (py_int (us * real_of_int (CryUnitDetector.sr cfg)))
                             (py_int (ue * real_of_int (CryUnitDetector.sr cfg))))"
  using assms by (auto simp: make_unit_def Let_def split: if_splits)

lemma make_unit_voicing:
  fixes a c n :: nat
  assumes sr: "0 < CryUnitDetector.sr cfg"
    and cond: "512 + real_of_int (CryUnitDetector.sr cfg) * 0.02
                 \<le> min_unit_duration cfg * real_of_int (CryUnitDetector.sr cfg)"
    and grid: "a \<le> n" "c \<le> n" and n: "n \<le> frame_count (length audio)"
    and mk: "make_unit cfg lib t0 audio energy (real_of_int 512 / real_of_int (CryUnitDetector.sr cfg))
               (real a * (real_of_int 512 / real_of_int (CryUnitDetector.sr cfg)),
                real c * (real_of_int 512 / real_of_int (CryUnitDetector.sr cfg))) = Some u"
  shows "is_voiced u \<longleftrightarrow>
           np_mean (zero_crossing_rate lib
             (py_slice audio
                (py_int ((CryUnit.start_time u - t0) * real_of_int (CryUnitDetector.sr cfg)))
                (py_int ((CryUnit.end_time u - t0) * real_of_int (CryUnitDetector.sr cfg))))) < 0.1 \<and>
           0.01 \<le> rms_energy
             (py_slice audio
                (py_int ((CryUnit.start_time u - t0) * real_of_int (CryUnitDetector.sr cfg)))
                (py_int ((CryUnit.end_time u - t0) * real_of_int (CryUnitDetector.sr cfg))))"
proof -
  define R where "R = real_of_int (CryUnitDetector.sr cfg)"
  define fd where "fd = real_of_int 512 / R"
  have R: "0 < R" using sr by (simp add: R_def)
  note f = make_unit_fields[OF mk[folded R_def, folded fd_def], folded R_def]
  have sa: "(CryUnit.start_time u - t0) * R = real (a * 512)"
    using f(1) R by (simp add: fd_def)
  have sc: "(CryUnit.end_time u - t0) * R = real (c * 512)"
    using f(2) R by (simp add: fd_def)
  have ia: "py_int ((CryUnit.start_time u - t0) * R) = int (a * 512)"
    unfolding sa by (rule py_int_of_nat)
  have ic: "py_int ((CryUnit.end_time u - t0) * R) = int (c * 512)"
    unfolding sc by (rule py_int_of_nat)
  have "real a * fd * R = real (a * 512)" "real c * fd * R = real (c * 512)"
    using R by (simp_all add: fd_def)
  then have ua: "py_int (real a * fd * R) = int (a * 512)"
    "py_int (real c * fd * R) = int (c * 512)"
    by (simp_all only: py_int_of_nat)
  let ?A = "py_slice audio (int (a * 512)) (int (c * 512))"
  have voiced: "is_voiced u = classify_voicing cfg lib ?A"
    using f(4) unfolding ua .
  have "min_unit_duration cfg \<le> (real c - real a) * fd"
    using f(3) by (simp add: algebra_simps)
  then have "min_unit_duration cfg * R \<le> (real c - real a) * fd * R"
    using R by (simp add: mult_right_mono)
  then have dur: "min_unit_duration cfg * R \<le> (real c - real a) * 512"
    using R by (simp add: fd_def)
  then have gap: "512 + R * 0.02 \<le> (real c - real a) * 512"
    using cond by (simp add: R_def)
  then have "real a < real c" using R by (simp add: algebra_simps)
  then have ac: "a < c" by simp
  obtain d where d: "c = Suc (a + d)" using ac less_imp_Suc_add by blast
  have "real ((c - a - 1) * 512) = (real c - real a) * 512 - 512"
    unfolding d by simp
  then have "R * 0.02 \<le> real ((c - a - 1) * 512)"
    using gap by linarith
  also have "\<dots> \<le> real (min (c * 512) (length audio) - min (a * 512) (length audio))"
    using grid_slice_long[OF grid(2) n ac] by (simp only: of_nat_le_iff)
  also have "\<dots> = real (length ?A)"
    by (simp add: py_slice_length)
  finally have long: "R * 0.02 \<le> real (length ?A)" .
  then have "classify_voicing cfg lib ?A \<longleftrightarrow>
               np_mean (zero_crossing_rate lib ?A) < 0.1 \<and> 0.01 \<le> rms_energy ?A"
    unfolding classify_voicing_iff R_def by simp
  then show ?thesis
    unfolding voiced R_def[symmetric] ia ic .
qed

lemma units_voicing:
  assumes "0 < CryUnitDetector.sr cfg"
    and "512 + real_of_int (CryUnitDetector.sr cfg) * 0.02
           \<le> min_unit_duration cfg * real_of_int (CryUnitDetector.sr cfg)"
    and "length (energy_envelope lib (episode_slice cfg y s e))
           \<le> frame_count (length (episode_slice cfg y s e))"
  shows "\<forall>u \<in> set (detect_units_in_episode cfg lib y s e).
           is_voiced u \<longleftrightarrow>
             np_mean (zero_crossing_rate lib (audio_of_unit cfg y s e u)) < 0.1 \<and>
             0.01 \<le> rms_energy (audio_of_unit cfg y s e u)"
proof
  fix u assume u: "u \<in> set (detect_units_in_episode cfg lib y s e)"
  let ?audio = "episode_slice cfg y s e"
  let ?fd = "real_of_int 512 / real_of_int (CryUnitDetector.sr cfg)"
  let ?energy = "energy_envelope lib ?audio"
  let ?frames = "map (\<lambda>x. x < silence_threshold cfg) ?energy"
  let ?n = "length ?energy"
  let ?bs = "determine_unit_boundaries (find_silence_segments cfg ?frames ?fd) (real ?n * ?fd)"
  have "\<forall>x \<in> set (find_silence_segments cfg ?frames ?fd). on_grid ?fd (length ?frames) x"
    by (rule find_silence_segments_grid)
  then have "\<forall>x \<in> set (find_silence_segments cfg ?frames ?fd). on_grid ?fd ?n x" by simp
  then have bs: "\<forall>b \<in> set ?bs. on_grid ?fd ?n b"
    by (rule determine_unit_boundaries_grid)
  have "u \<in> set (List.map_filter (make_unit cfg lib s ?audio ?energy ?fd) ?bs)"
    using u by (simp add: detect_units_in_episode_def Let_def split: if_splits)
  then obtain b where b: "b \<in> set ?bs" "make_unit cfg lib s ?audio ?energy ?fd b = Some u"
    by (auto simp: map_filter_def)
  obtain a c where ac: "a \<le> ?n" "c \<le> ?n" "b = (real a * ?fd, real c * ?fd)"
    using bs b(1) by (auto simp: on_grid_def)
  show "is_voiced u \<longleftrightarrow>
             np_mean (zero_crossing_rate lib (audio_of_unit cfg y s e u)) < 0.1 \<and>
             0.01 \<le> rms_energy (audio_of_unit cfg y s e u)"
    unfolding audio_of_unit_def
    by (rule make_unit_voicing[OF assms(1,2) ac(1,2) assms(3) b(2)[unfolded ac(3)]])
qed

subsection \<open>Claim C6\<close>

text \<open>
  C6. For every unit that \<open>detect_units_in_episode\<close> returns, \<open>is_voiced\<close> holds exactly
  when the mean zero-crossing rate of the unit's audio (the sum of the rates of its frames
  over their number) is below 0.1 and the energy of the unit's audio (the root of the
  mean of its squared samples) is at least 0.01. The classification also rejects audio
  shorter than 20 ms, which no unit is: a unit starts and ends at whole numbers of frames
  of 512 samples and lasts at least \<open>min_unit_duration\<close>, so when one frame and 20 ms
  together are no longer than \<open>min_unit_duration\<close> (at the defaults 512 + 441 samples
  against 2205) its audio has at least 20 ms of samples, also when it is the last unit
  and the audio ends within its last frame. The envelope is taken to have no more frames
  than the library gives for centred framing, one more than the whole hops of the audio.
\<close>

theorem unit_voicing:
  assumes "0 < CryUnitDetector.sr cfg"
    and "512 + real_of_int (CryUnitDetector.sr cfg) * 0.02
           \<le> min_unit_duration cfg * real_of_int (CryUnitDetector.sr cfg)"
    and "length (energy_envelope lib (episode_slice cfg y s e))
           \<le> frame_count (length (episode_slice cfg y s e))"
  shows "\<forall>u \<in> set (detect_units_in_episode cfg lib y s e).
           (let audio = audio_of_unit cfg y s e u;
                zcr = zero_crossing_rate lib audio
            in is_voiced u \<longleftrightarrow>
                 sum_list zcr / real (length zcr) < 0.1 \<and>
                 0.01 \<le> sqrt (sum_list (map (\<lambda>x. x\<^sup>2) audio) / real (length audio)))"
  using units_voicing[OF assms] unfolding Let_def np_mean_def rms_energy_def length_map .

theorem unit_voicing_witness:
  "0 < CryUnitDetector.sr default_unit_detector \<and>
   512 + real_of_int (CryUnitDetector.sr default_unit_detector) * 0.02
     \<le> min_unit_duration default_unit_detector
         * real_of_int (CryUnitDetector.sr default_unit_detector) \<and>
   length (energy_envelope (steady_lib 1 (1/2))
             (episode_slice default_unit_detector (replicate 22050 (1/2)) 0 1))
     \<le> frame_count (length (episode_slice default_unit_detector (replicate 22050 (1/2)) 0 1)) \<and>
   detect_units_in_episode default_unit_detector (steady_lib 1 (1/2)) (replicate 22050 (1/2)) 0 1 =
     [\<lparr>CryUnit.start_time = 0, end_time = 11264 / 11025, duration = 11264 / 11025,
       is_voiced = True, mean_energy = 1/2, peak_frequency = 0\<rparr>] \<and>
   audio_of_unit default_unit_detector (replicate 22050 (1/2)) 0 1
     \<lparr>CryUnit.start_time = 0, end_time = 11264 / 11025, duration = 11264 / 11025,
      is_voiced = True, mean_energy = 1/2, peak_frequency = 0\<rparr> = replicate 22050 (1/2) \<and>
   zero_crossing_rate (steady_lib 1 (1/2)) (replicate 22050 (1/2)) = replicate 44 0 \<and>
   sum_list (replicate 44 (0::real)) / real (length (replicate 44 (0::real))) < 0.1 \<and>
   0.01 \<le> sqrt (sum_list (map (\<lambda>x. x\<^sup>2) (replicate 22050 (1/2::real)))
                  / real (length (replicate 22050 (1/2::real))))"
proof -
  let ?cfg = default_unit_detector and ?lib = "steady_lib 1 (1/2)"
  let ?y = "replicate 22050 (1/2::real)"
  let ?u = "\<lparr>CryUnit.start_time = 0, end_time = 11264 / 11025, duration = 11264 / 11025,
             is_voiced = True, mean_energy = 1/2, peak_frequency = 0\<rparr>"
  have sr: "CryUnitDetector.sr ?cfg = 22050"
    and mu: "min_unit_duration ?cfg = 1/10"
    by (simp_all add: default_unit_detector_def)
  have h1: "0 < CryUnitDetector.sr ?cfg" by (simp add: sr)
  have h2: "512 + real_of_int (CryUnitDetector.sr ?cfg) * 0.02
              \<le> min_unit_duration ?cfg * real_of_int (CryUnitDetector.sr ?cfg)"
    by (simp add: sr mu)
  have audio: "episode_slice ?cfg ?y 0 1 = ?y"
    by (simp add: episode_slice_def sr py_int_def py_slice_whole)
  have fc: "frame_count 22050 = 44" by (simp add: frame_count_def)
  have env: "energy_envelope ?lib ?y = replicate 44 (1/2)"
    using fc by (simp add: energy_envelope_def steady_lib_def)
  have h3: "length (energy_envelope ?lib (episode_slice ?cfg ?y 0 1))
              \<le> frame_count (length (episode_slice ?cfg ?y 0 1))"
    unfolding audio env using fc by simp
  have ua: "audio_of_unit ?cfg ?y 0 1 ?u = ?y"
    unfolding audio_of_unit_def audio sr by (simp add: py_int_def py_slice_whole)
  have z: "zero_crossing_rate ?lib ?y = replicate 44 0"
    using fc by (simp add: steady_lib_def)
  have "let audio = audio_of_unit ?cfg ?y 0 1 ?u; zcr = zero_crossing_rate ?lib audio
        in is_voiced ?u \<longleftrightarrow>
             sum_list zcr / real (length zcr) < 0.1 \<and>
             0.01 \<le> sqrt (sum_list (map (\<lambda>x. x\<^sup>2) audio) / real (length audio))"
    using unit_voicing[OF h1 h2 h3] unfolding steady_recording_units by simp
  then have "sum_list (replicate 44 (0::real)) / real (length (replicate 44 (0::real))) < 0.1 \<and>
             0.01 \<le> sqrt (sum_list (map (\<lambda>x. x\<^sup>2) ?y) / real (length ?y))"
    unfolding Let_def ua z by simp
  then show ?thesis
    using h1 h2 h3 steady_recording_units ua z by blast
qed

subsection \<open>Claim C7\<close>

text \<open>
  C7. For every list of units, \<open>cryCE\<close> is the mean duration of the voiced units, 0 when
  there is none, and \<open>unvoicedCE\<close> is the sum of the durations of the unvoiced units, 0
  when there is none; both are 0 for the empty list.
\<close>

theorem cry_unit_metrics:
  "calculate_cry_unit_metrics units =
     ((if filter is_voiced units = [] then 0
       else sum_list (map CryUnit.duration (filter is_voiced units))
              / real (length (filter is_voiced units))),
      (if filter (\<lambda>u. \<not> is_voiced u) units = [] then 0
       else sum_list (map CryUnit.duration (filter (\<lambda>u. \<not> is_voiced u) units))))"
  by (simp add: calculate_cry_unit_metrics_def np_mean_def Let_def)

theorem cry_unit_metrics_witness:
  "calculate_cry_unit_metrics four_units = (1/2, 1/2) \<and>
   calculate_cry_unit_metrics [unit_of 1 (1/5) False] = (0, 1/5) \<and>
   calculate_cry_unit_metrics [unit_of 0 (2/5) True] = (2/5, 0) \<and>
   calculate_cry_unit_metrics [] = (0, 0)"
  using cry_unit_metrics[of four_units] cry_unit_metrics[of "[unit_of 1 (1/5) False]"]
        cry_unit_metrics[of "[unit_of 0 (2/5) True]"] cry_unit_metrics[of "[]"]
  by (simp add: four_units_def unit_of_def)

subsection \<open>Claim C10\<close>

lemma slice_index_mono: "0 \<le> a \<Longrightarrow> a \<le> b \<Longrightarrow> slice_index a n \<le> slice_index b n"
  by (simp add: slice_index_def)

text \<open>
  C10. When the slice of the audio taken for the episode is empty, the detector returns
  the empty list. The slice is empty when the end time is not after the start time (times
  and sample rate not negative), and when the start sample lies at or past the end of the
  audio.
\<close>

theorem empty_range_no_units:
  "(episode_slice cfg y s e = [] \<longrightarrow> detect_units_in_episode cfg lib y s e = []) \<and>
   (0 \<le> CryUnitDetector.sr cfg \<and> 0 \<le> e \<and> e \<le> s \<longrightarrow>
      detect_units_in_episode cfg lib y s e = []) \<and>
   (int (length y) \<le> py_int (s * real_of_int (CryUnitDetector.sr cfg)) \<longrightarrow>
      detect_units_in_episode cfg lib y s e = [])"
proof (intro conjI impI)
  show "detect_units_in_episode cfg lib y s e = []" if "episode_slice cfg y s e = []"
    using that by (simp add: detect_units_in_episode_def)
next
  assume a: "0 \<le> CryUnitDetector.sr cfg \<and> 0 \<le> e \<and> e \<le> s"
  let ?r = "real_of_int (CryUnitDetector.sr cfg)"
  have "0 \<le> e * ?r" "e * ?r \<le> s * ?r" using a by (simp_all add: mult_right_mono)
  then have "0 \<le> py_int (e * ?r)" "py_int (e * ?r) \<le> py_int (s * ?r)"
    by (auto simp: py_int_def floor_mono)
  then have "slice_index (py_int (e * ?r)) (length y) \<le> slice_index (py_int (s * ?r)) (length y)"
    by (rule slice_index_mono)
  then have "episode_slice cfg y s e = []"
    by (simp add: episode_slice_def py_slice_def)
  then show "detect_units_in_episode cfg lib y s e = []"
    by (simp add: detect_units_in_episode_def)
next
  assume "int (length y) \<le> py_int (s * real_of_int (CryUnitDetector.sr cfg))"
  then have "episode_slice cfg y s e = []"
    by (simp add: episode_slice_def py_slice_def slice_index_def)
  then show "detect_units_in_episode cfg lib y s e = []"
    by (simp add: detect_units_in_episode_def)
qed

theorem empty_range_no_units_witness:
  "episode_slice default_unit_detector (replicate 22050 (1/2)) (1/2) (1/2) = [] \<and>
   detect_units_in_episode default_unit_detector (steady_lib 1 (1/2))
     (replicate 22050 (1/2)) (1/2) (1/2) = [] \<and>
   0 \<le> CryUnitDetector.sr default_unit_detector \<and> (0::real) \<le> 1/4 \<and> (1/4::real) \<le> 1/2 \<and>
   detect_units_in_episode default_unit_detector (steady_lib 1 (1/2))
     (replicate 22050 (1/2)) (1/2) (1/4) = [] \<and>
   int (length (replicate 22050 (1/2::real)))
     \<le> py_int (3 * real_of_int (CryUnitDetector.sr default_unit_detector)) \<and>
   detect_units_in_episode default_unit_detector (steady_lib 1 (1/2))
     (replicate 22050 (1/2)) 3 4 = []"
proof -
  let ?cfg = default_unit_detector and ?lib = "steady_lib 1 (1/2)"
  let ?y = "replicate 22050 (1/2::real)"
  have sr: "CryUnitDetector.sr ?cfg = 22050" by (simp add: default_unit_detector_def)
  have h1: "episode_slice ?cfg ?y (1/2) (1/2) = []"
    by (simp add: episode_slice_def py_slice_def)
  have h2: "0 \<le> CryUnitDetector.sr ?cfg \<and> (0::real) \<le> 1/4 \<and> (1/4::real) \<le> 1/2"
    by (simp add: sr)
  have h3: "int (length ?y) \<le> py_int (3 * real_of_int (CryUnitDetector.sr ?cfg))"
    by (simp add: sr py_int_def)
  show ?thesis
    using h1 h2 h3
          empty_range_no_units[of ?cfg ?y "1/2" "1/2" ?lib]
          empty_range_no_units[of ?cfg ?y "1/2" "1/4" ?lib]
          empty_range_no_units[of ?cfg ?y 3 4 ?lib]
    by blast
qed

section \<open>Episode percentages: rounding\<close>

subsection \<open>Rounding to binary64\<close>

lemma round_half_even_error: "\<bar>real_of_int (round_half_even y) - y\<bar> \<le> 1 / 2"
  unfolding round_half_even_def Let_def by (auto; linarith)

lemma binary64_error: "\<bar>binary64 x - x\<bar> \<le> \<bar>x\<bar> / 2 ^ 53"
proof (cases "x = 0")
  case True
  then show ?thesis by (simp add: binary64_def)
next
  case False
  define e where "e = \<lfloor>log 2 \<bar>x\<bar>\<rfloor>"
  define ulp where "ulp = 2 powr (real_of_int e - 52)"
  have pos: "0 < \<bar>x\<bar>" using False by simp
  have "2 powr (real_of_int e) \<le> \<bar>x\<bar>"
    using floor_log_eq_powr_iff[of "\<bar>x\<bar>" 2 e] pos e_def by simp
  moreover have "ulp = 2 powr (real_of_int e) / 2 ^ 52"
    unfolding ulp_def by (simp add: powr_diff)
  ultimately have ulp_le: "ulp \<le> \<bar>x\<bar> / 2 ^ 52"
    by (simp add: divide_right_mono)
  have ulp_pos: "0 < ulp" unfolding ulp_def by simp
  have b: "binary64 x = real_of_int (round_half_even (x / ulp)) * ulp"
    using False by (simp add: binary64_def Let_def e_def ulp_def)
  have "binary64 x - x = (real_of_int (round_half_even (x / ulp)) - x / ulp) * ulp"
    unfolding b using ulp_pos by (simp add: field_simps)
  then have "\<bar>binary64 x - x\<bar> = \<bar>real_of_int (round_half_even (x / ulp)) - x / ulp\<bar> * ulp"
    using ulp_pos by (simp add: abs_mult)
  also have "\<dots> \<le> 1 / 2 * ulp"
    using round_half_even_error[of "x / ulp"] ulp_pos by (simp add: mult_right_mono)
  also have "\<dots> \<le> 1 / 2 * (\<bar>x\<bar> / 2 ^ 52)" using ulp_le by simp
  also have "\<dots> = \<bar>x\<bar> / 2 ^ 53" by simp
  finally show ?thesis .
qed

lemma binary64_scaled:
  assumes "2 ^ 52 \<le> x * 2 ^ k" and "x * 2 ^ k < 2 ^ 53"
  shows "binary64 x = real_of_int (round_half_even (x * 2 ^ k)) / 2 ^ k"
proof -
  have xpos: "0 < x"
  proof (rule ccontr)
    assume "\<not> 0 < x"
    then have "x * 2 ^ k \<le> 0" by (simp add: mult_le_0_iff)
    then show False using assms(1) by (smt (verit) zero_less_power)
  qed
  have p1: "2 powr (real_of_int (52 - int k)) = 2 ^ 52 / 2 ^ k"
    by (simp add: powr_diff powr_realpow)
  have p2: "2 powr (real_of_int (52 - int k + 1)) = 2 ^ 53 / 2 ^ k"
  proof -
    have "real_of_int (52 - int k + 1) = 53 - real k" by simp
    then show ?thesis by (simp add: powr_diff powr_realpow)
  qed
  have "2 ^ 52 / 2 ^ k \<le> x" "x < 2 ^ 53 / 2 ^ k"
    using assms by (simp_all add: field_simps)
  then have e: "\<lfloor>log 2 \<bar>x\<bar>\<rfloor> = 52 - int k"
    using floor_log_eq_powr_iff[of x 2 "52 - int k"] xpos p1 p2 by simp
  have ulp: "2 powr (real_of_int (52 - int k) - 52) = 1 / 2 ^ k"
    by (simp add: powr_minus powr_realpow inverse_eq_divide)
  show ?thesis
    using xpos unfolding binary64_def Let_def e ulp by simp
qed

lemma voiced_23_of_160:
  "py_round2 (float_mul (py_truediv 23 160) 100) = binary64 (1437 / 100)"
proof -
  have q: "py_truediv 23 160 = 5179139571476070 / 2 ^ 55"
    unfolding py_truediv_def
    by (subst binary64_scaled[of _ 55]) (simp_all add: round_half_even_def)
  have p: "float_mul (5179139571476070 / 2 ^ 55) 100 = 8092405580431359 / 2 ^ 49"
    unfolding float_mul_def
    by (subst binary64_scaled[of _ 49]) (simp_all add: round_half_even_def)
  have t: "round_half_even (8092405580431359 / 2 ^ 49 * 100) = 1437"
    by (simp add: round_half_even_def)
  show ?thesis unfolding q p py_round2_def t by simp
qed

lemma unvoiced_137_of_160:
  "py_round2 (float_mul (py_truediv 137 160) 100) = binary64 (8562 / 100)"
proof -
  have q: "py_truediv 137 160 = 7712414361871974 / 2 ^ 53"
    unfolding py_truediv_def
    by (subst binary64_scaled[of _ 53]) (simp_all add: round_half_even_def)
  have p: "float_mul (7712414361871974 / 2 ^ 53) 100 = 6025323720212480 / 2 ^ 46"
    unfolding float_mul_def
    by (subst binary64_scaled[of _ 46]) (simp_all add: round_half_even_def)
  have t: "round_half_even (6025323720212480 / 2 ^ 46 * 100) = 8562"
    by (simp add: round_half_even_def)
  show ?thesis unfolding q p py_round2_def t by simp
qed

lemma float_1437: "binary64 (1437 / 100) = 8089590830664253 / 2 ^ 49"
  by (subst binary64_scaled[of _ 49]) (simp_all add: round_half_even_def)

lemma float_8562: "binary64 (8562 / 100) = 6024971876491592 / 2 ^ 46"
  by (subst binary64_scaled[of _ 46]) (simp_all add: round_half_even_def)

lemma float_sum: "float_add (8089590830664253 / 2 ^ 49) (6024971876491592 / 2 ^ 46) = 7036170730324624 / 2 ^ 46"
  unfolding float_add_def
  by (subst binary64_scaled[of _ 46]) (simp_all add: round_half_even_def)

lemma mixed_counts:
  "length mixed_frames = 160"
  "length (filter (\<lambda>f. f0 f \<noteq> None) mixed_frames) = 23"
  by (simp_all add: mixed_frames_def pitch_frame_def)

lemma mixed_percentages:
  "voiced_pct (compute_special_parameters mixed_frames 500) = binary64 (1437 / 100)"
  "unvoiced_pct (compute_special_parameters mixed_frames 500) = binary64 (8562 / 100)"
  unfolding compute_special_parameters_def Let_def mixed_counts
  using voiced_23_of_160 unvoiced_137_of_160 by simp_all

lemma binary64_error_bound:
  assumes "\<bar>x\<bar> \<le> b"
  shows "\<bar>binary64 x - x\<bar> \<le> b / 2 ^ 53"
proof -
  have "\<bar>x\<bar> / 2 ^ 53 \<le> b / 2 ^ 53" using assms by (simp add: divide_right_mono)
  then show ?thesis using binary64_error[of x] by linarith
qed

lemma percentage_error:
  assumes "0 \<le> c" and "c \<le> n" and "0 < n"
  shows "\<bar>py_round2 (float_mul (py_truediv c n) 100) - 100 * (real_of_int c / real_of_int n)\<bar>
           \<le> 1 / 200 + 701 / 2 ^ 53"
proof -
  define x where "x = real_of_int c / real_of_int n"
  define q where "q = binary64 x"
  define p where "p = binary64 (q * 100)"
  define t where "t = real_of_int (round_half_even (p * 100)) / 100"
  define r where "r = binary64 t"
  define eps :: real where "eps = 1 / 2 ^ 53"
  have eps: "0 < eps" "eps \<le> 1 / 1000" by (simp_all add: eps_def)
  have x: "0 \<le> x" "x \<le> 1" using assms by (simp_all add: x_def)
  have "\<bar>x\<bar> \<le> 1" using x by simp
  then have q: "\<bar>q - x\<bar> \<le> eps"
    unfolding q_def eps_def by (rule binary64_error_bound)
  have "\<bar>q * 100\<bar> \<le> 200" using q x eps by linarith
  then have "\<bar>p - q * 100\<bar> \<le> 200 / 2 ^ 53"
    unfolding p_def by (rule binary64_error_bound)
  then have p: "\<bar>p - q * 100\<bar> \<le> 200 * eps" by (simp add: eps_def)
  have "\<bar>real_of_int (round_half_even (p * 100)) - p * 100\<bar> \<le> 1 / 2"
    by (rule round_half_even_error)
  then have t: "\<bar>t - p\<bar> \<le> 1 / 200" unfolding t_def by linarith
  have "\<bar>t\<bar> \<le> 401" using t p q x eps by linarith
  then have "\<bar>r - t\<bar> \<le> 401 / 2 ^ 53"
    unfolding r_def by (rule binary64_error_bound)
  then have r: "\<bar>r - t\<bar> \<le> 401 * eps" by (simp add: eps_def)
  have "\<bar>r - 100 * x\<bar> \<le> 1 / 200 + 701 * eps"
    using q p t r by linarith
  moreover have "py_round2 (float_mul (py_truediv c n) 100) = r"
    by (simp add: py_round2_def float_mul_def py_truediv_def r_def t_def p_def q_def x_def)
  ultimately show ?thesis by (simp add: x_def eps_def)
qed

subsection \<open>Claim C4\<close>

text \<open>
  C4, as the source has it. The two percentages are rounded to two decimals one by one,
  each from its own count, so for every non-empty list of frames their sum lies within
  0.01 of 100, up to the rounding error of the float operations (below \<open>10\<^sup>-\<^sup>1\<^sup>2\<close>); it
  need not be 100.
\<close>

theorem percentages_sum_near_100:
  assumes "fs \<noteq> []"
  shows "\<bar>voiced_pct (compute_special_parameters fs thr) +
          unvoiced_pct (compute_special_parameters fs thr) - 100\<bar> \<le> 1 / 100 + 1 / 10 ^ 12"
proof -
  let ?n = "int (length fs)"
  let ?v = "int (length (filter (\<lambda>f. f0 f \<noteq> None) fs))"
  have n: "0 < ?n" using assms by simp
  have v: "0 \<le> ?v" "?v \<le> ?n" by simp_all
  have u: "0 \<le> ?n - ?v" "?n - ?v \<le> ?n" by simp_all
  have e1: "\<bar>py_round2 (float_mul (py_truediv ?v ?n) 100) - 100 * (real_of_int ?v / real_of_int ?n)\<bar>
           \<le> 1 / 200 + 701 / 2 ^ 53"
    by (rule percentage_error[OF v n])
  have e2: "\<bar>py_round2 (float_mul (py_truediv (?n - ?v) ?n) 100)
             - 100 * (real_of_int (?n - ?v) / real_of_int ?n)\<bar>
           \<le> 1 / 200 + 701 / 2 ^ 53"
    by (rule percentage_error[OF u n])
  have s: "100 * (real_of_int ?v / real_of_int ?n) + 100 * (real_of_int (?n - ?v) / real_of_int ?n) = 100"
    using n by (simp add: field_simps)
  have "\<bar>py_round2 (float_mul (py_truediv ?v ?n) 100) +
         py_round2 (float_mul (py_truediv (?n - ?v) ?n) 100) - 100\<bar> \<le> 1 / 100 + 1402 / 2 ^ 53"
    using e1 e2 s by linarith
  moreover have "(1402::real) / 2 ^ 53 \<le> 1 / 10 ^ 12" by simp
  moreover have "voiced_pct (compute_special_parameters fs thr) =
                  py_round2 (float_mul (py_truediv ?v ?n) 100)"
    and "unvoiced_pct (compute_special_parameters fs thr) =
                  py_round2 (float_mul (py_truediv (?n - ?v) ?n) 100)"
    using assms by (simp_all add: compute_special_parameters_def Let_def)
  ultimately show ?thesis by linarith
qed

theorem percentages_sum_near_100_witness:
  "mixed_frames \<noteq> [] \<and>
   \<bar>voiced_pct (compute_special_parameters mixed_frames 500) +
     unvoiced_pct (compute_special_parameters mixed_frames 500) - 100\<bar> \<le> 1 / 100 + 1 / 10 ^ 12"
proof -
  have ne: "mixed_frames \<noteq> []" by (simp add: mixed_frames_def)
  show ?thesis using ne percentages_sum_near_100[OF ne, of 500] by blast
qed

text \<open>
  C4 as stated fails for 160 frames of which 23 are voiced. The quotient 23 / 160 times
  100 is a float just below 14.375 and rounds to 14.37; 137 / 160 times 100 is the float
  85.625, a tie, and rounds to the even 85.62. The sum of the two values is below 100,
  also when it is taken in floating point.
\<close>

theorem percentages_miss_100:
  "voiced_pct (compute_special_parameters mixed_frames 500) = binary64 (1437 / 100) \<and>
   unvoiced_pct (compute_special_parameters mixed_frames 500) = binary64 (8562 / 100) \<and>
   voiced_pct (compute_special_parameters mixed_frames 500) +
     unvoiced_pct (compute_special_parameters mixed_frames 500) < 100 \<and>
   float_add (voiced_pct (compute_special_parameters mixed_frames 500))
             (unvoiced_pct (compute_special_parameters mixed_frames 500)) < 100"
  unfolding mixed_percentages float_1437 float_8562 float_sum by simp

section \<open>Episode statistics: defined samples only\<close>

lemma defined_values_filter:
  "defined_values fs param =
     map the (filter (\<lambda>v. v \<noteq> None) (map (\<lambda>f. getattr f param) fs))"
  by (simp add: defined_values_def map_filter_def filter_map comp_def)

lemma defined_values_drop_absent:
  "defined_values (filter (\<lambda>f. getattr f param \<noteq> None) fs) param = defined_values fs param"
  by (simp add: defined_values_def map_filter_def)

lemma defined_values_append:
  "defined_values (xs @ ys) param = defined_values xs param @ defined_values ys param"
  by (simp add: defined_values_def map_filter_def)

lemma defined_values_absent:
  "getattr f param = None \<Longrightarrow> defined_values (f # fs) param = defined_values fs param"
  by (simp add: defined_values_def map_filter_def)

lemma defined_values_none:
  "(\<forall>f \<in> set fs. getattr f param = None) \<Longrightarrow> defined_values fs param = []"
  by (induction fs) (simp_all add: defined_values_def map_filter_def)

lemma compute_statistics_param:
  assumes "param \<in> set params"
  shows "compute_statistics fs param = Some (statistics_of (defined_values fs param))"
  using assms by (auto simp: compute_statistics_def params_def)

lemma np_min_Min: "xs \<noteq> [] \<Longrightarrow> np_min xs = Min (set xs)"
proof (cases xs)
  case (Cons a list)
  then show ?thesis using Min.set_eq_fold[of a list] by (simp add: np_min_def)
qed simp

lemma np_max_Max: "xs \<noteq> [] \<Longrightarrow> np_max xs = Max (set xs)"
proof (cases xs)
  case (Cons a list)
  then show ?thesis using Max.set_eq_fold[of a list] by (simp add: np_max_def)
qed simp

lemma binary64_zero: "binary64 0 = 0"
  by (simp add: binary64_def)

lemma zero_percent: "py_round2 (float_mul (py_truediv 0 n) 100) = 0"
  by (simp add: py_round2_def float_mul_def py_truediv_def binary64_zero round_half_even_def)

lemma unvoiced_special:
  assumes "\<forall>f \<in> set fs. f0 f = None"
  shows "voiced_pct (compute_special_parameters fs thr) = 0 \<and>
         high_pitch_pct (compute_special_parameters fs thr) = 0"
proof -
  have "filter (\<lambda>f. f0 f \<noteq> None) fs = []" using assms by (simp add: filter_empty_conv)
  moreover have "filter (is_high_pitch thr) fs = []"
    using assms by (simp add: filter_empty_conv is_high_pitch_def)
  ultimately show ?thesis
    by (simp add: compute_special_parameters_def Let_def zero_percent)
qed

lemma defined_values_field:
  assumes "(param, field) \<in> {(''f0'', f0), (''f1'', f1), (''f2'', f2), (''f3'', f3),
             (''hnr'', hnr), (''shimmer'', shimmer), (''jitter'', jitter),
             (''intensity'', intensity)}"
  shows "param \<in> set params" and "(\<lambda>f. getattr f param) = field"
  using assms by (auto simp: params_def getattr_def)

subsection \<open>Claim C5\<close>

text \<open>
  C5. For each of the eight parameters \<open>f0\<close>, \<open>f1\<close>, \<open>f2\<close>, \<open>f3\<close>, \<open>hnr\<close>, \<open>shimmer\<close>,
  \<open>jitter\<close> and \<open>intensity\<close>, and every list of frames, let \<open>vs\<close> be the values of the
  frames where the parameter is defined. With no such value all five statistics fields
  are null. Otherwise they are the mean of \<open>vs\<close> (the sum over the count), its standard
  deviation (the root of the mean squared distance from the mean), its least value, its
  greatest value and its median (the middle of the sorted values, the mean of the two
  middle ones when their number is even). The frames where the parameter is absent can
  be removed, or one more such frame inserted anywhere, without changing the statistics,
  so an absent value is never counted as zero. When the pitch of every frame is absent,
  \<open>voiced_pct\<close> and \<open>high_pitch_pct\<close> are 0 and all fields of the statistics of \<open>f0\<close> are
  null.
\<close>

theorem statistics_over_defined_samples:
  assumes "(param, field) \<in> {(''f0'', f0), (''f1'', f1), (''f2'', f2), (''f3'', f3),
             (''hnr'', hnr), (''shimmer'', shimmer), (''jitter'', jitter),
             (''intensity'', intensity)}"
    and "vs = map the (filter (\<lambda>v. v \<noteq> None) (map field fs))"
  shows "(vs = [] \<longrightarrow>
            compute_statistics fs param =
              Some \<lparr>mean = None, std = None, min_value = None, max_value = None,
                    median = None\<rparr>) \<and>
         (vs \<noteq> [] \<longrightarrow>
            compute_statistics fs param =
              Some \<lparr>mean = Some (sum_list vs / real (length vs)),
                    std = Some (sqrt (sum_list (map (\<lambda>x. (x - sum_list vs / real (length vs))\<^sup>2) vs)
                                        / real (length vs))),
                    min_value = Some (Min (set vs)),
                    max_value = Some (Max (set vs)),
                    median = Some (if odd (length vs) then sort vs ! (length vs div 2)
                                   else (sort vs ! (length vs div 2 - 1)
                                           + sort vs ! (length vs div 2)) / 2)\<rparr>) \<and>
         compute_statistics (filter (\<lambda>f. field f \<noteq> None) fs) param =
           compute_statistics fs param \<and>
         (field f = None \<longrightarrow>
            compute_statistics (fs1 @ f # fs2) param = compute_statistics (fs1 @ fs2) param) \<and>
         ((\<forall>f \<in> set fs. f0 f = None) \<longrightarrow>
            voiced_pct (compute_special_parameters fs thr) = 0 \<and>
            high_pitch_pct (compute_special_parameters fs thr) = 0 \<and>
            compute_statistics fs ''f0'' =
              Some \<lparr>mean = None, std = None, min_value = None, max_value = None,
                    median = None\<rparr>)"
proof -
  note p = defined_values_field(1)[OF assms(1)]
  note g = defined_values_field(2)[OF assms(1)]
  have gf: "getattr f param = field f" for f using g by (rule fun_cong)
  have vs: "defined_values fs param = vs"
    unfolding assms(2) defined_values_filter g ..
  have c1: "vs = [] \<longrightarrow> compute_statistics fs param =
              Some \<lparr>mean = None, std = None, min_value = None, max_value = None,
                    median = None\<rparr>"
    by (simp add: compute_statistics_param[OF p] vs statistics_of_def all_null_def)
  have c2: "vs \<noteq> [] \<longrightarrow>
            compute_statistics fs param =
              Some \<lparr>mean = Some (sum_list vs / real (length vs)),
                    std = Some (sqrt (sum_list (map (\<lambda>x. (x - sum_list vs / real (length vs))\<^sup>2) vs)
                                        / real (length vs))),
                    min_value = Some (Min (set vs)),
                    max_value = Some (Max (set vs)),
                    median = Some (if odd (length vs) then sort vs ! (length vs div 2)
                                   else (sort vs ! (length vs div 2 - 1)
                                           + sort vs ! (length vs div 2)) / 2)\<rparr>"
    by (simp add: compute_statistics_param[OF p] vs statistics_of_def np_mean_def np_std_def
          np_median_def Let_def np_min_Min np_max_Max)
  have c3: "compute_statistics (filter (\<lambda>f. field f \<noteq> None) fs) param =
           compute_statistics fs param"
    unfolding compute_statistics_param[OF p] gf[symmetric] defined_values_drop_absent ..
  have c4: "field f = None \<longrightarrow>
            compute_statistics (fs1 @ f # fs2) param = compute_statistics (fs1 @ fs2) param"
    by (simp add: compute_statistics_param[OF p] defined_values_append defined_values_absent gf)
  have c5: "(\<forall>f \<in> set fs. f0 f = None) \<longrightarrow>
            voiced_pct (compute_special_parameters fs thr) = 0 \<and>
            high_pitch_pct (compute_special_parameters fs thr) = 0 \<and>
            compute_statistics fs ''f0'' =
              Some \<lparr>mean = None, std = None, min_value = None, max_value = None,
                    median = None\<rparr>"
  proof
    assume un: "\<forall>f \<in> set fs. f0 f = None"
    have "\<forall>f \<in> set fs. getattr f ''f0'' = None" using un by (simp add: getattr_def)
    then have "defined_values fs ''f0'' = []" by (rule defined_values_none)
    moreover have "''f0'' \<in> set params" by (simp add: params_def)
    ultimately have "compute_statistics fs ''f0'' =
              Some \<lparr>mean = None, std = None, min_value = None, max_value = None,
                    median = None\<rparr>"
      by (simp add: compute_statistics_param statistics_of_def all_null_def)
    then show "voiced_pct (compute_special_parameters fs thr) = 0 \<and>
            high_pitch_pct (compute_special_parameters fs thr) = 0 \<and>
            compute_statistics fs ''f0'' =
              Some \<lparr>mean = None, std = None, min_value = None, max_value = None,
                    median = None\<rparr>"
      using unvoiced_special[OF un] by simp
  qed
  show ?thesis using c1 c2 c3 c4 c5 by blast
qed

theorem statistics_over_defined_samples_witness:
  "map the (filter (\<lambda>v. v \<noteq> None) (map f0 sample_frames)) = [300, 302] \<and>
   compute_statistics sample_frames ''f0'' =
     Some \<lparr>mean = Some 301, std = Some 1, min_value = Some 300, max_value = Some 302,
           median = Some 301\<rparr> \<and>
   map the (filter (\<lambda>v. v \<noteq> None) (map f1 sample_frames)) = [1000, 1002, 1000, 1002] \<and>
   compute_statistics sample_frames ''f1'' =
     Some \<lparr>mean = Some 1001, std = Some 1, min_value = Some 1000, max_value = Some 1002,
           median = Some 1001\<rparr> \<and>
   map the (filter (\<lambda>v. v \<noteq> None) (map f2 sample_frames)) = [2000] \<and>
   compute_statistics sample_frames ''f2'' =
     Some \<lparr>mean = Some 2000, std = Some 0, min_value = Some 2000, max_value = Some 2000,
           median = Some 2000\<rparr> \<and>
   map the (filter (\<lambda>v. v \<noteq> None) (map f3 sample_frames)) = [3000] \<and>
   compute_statistics sample_frames ''f3'' =
     Some \<lparr>mean = Some 3000, std = Some 0, min_value = Some 3000, max_value = Some 3000,
           median = Some 3000\<rparr> \<and>
   map the (filter (\<lambda>v. v \<noteq> None) (map hnr sample_frames)) = [10, 14] \<and>
   compute_statistics sample_frames ''hnr'' =
     Some \<lparr>mean = Some 12, std = Some 2, min_value = Some 10, max_value = Some 14,
           median = Some 12\<rparr> \<and>
   map the (filter (\<lambda>v. v \<noteq> None) (map shimmer sample_frames)) = [] \<and>
   compute_statistics sample_frames ''shimmer'' =
     Some \<lparr>mean = None, std = None, min_value = None, max_value = None, median = None\<rparr> \<and>
   map the (filter (\<lambda>v. v \<noteq> None) (map jitter sample_frames)) = [1, 3] \<and>
   compute_statistics sample_frames ''jitter'' =
     Some \<lparr>mean = Some 2, std = Some 1, min_value = Some 1, max_value = Some 3,
           median = Some 2\<rparr> \<and>
   map the (filter (\<lambda>v. v \<noteq> None) (map intensity sample_frames)) = [60, 62, 62, 60] \<and>
   compute_statistics sample_frames ''intensity'' =
     Some \<lparr>mean = Some 61, std = Some 1, min_value = Some 60, max_value = Some 62,
           median = Some 61\<rparr> \<and>
   f0 (pitch_frame 5 None) = None \<and>
   compute_statistics (pitch_frame 5 None # sample_frames) ''f0'' =
     Some \<lparr>mean = Some 301, std = Some 1, min_value = Some 300, max_value = Some 302,
           median = Some 301\<rparr> \<and>
   compute_statistics (filter (\<lambda>f. f0 f \<noteq> None) sample_frames) ''f0'' =
     Some \<lparr>mean = Some 301, std = Some 1, min_value = Some 300, max_value = Some 302,
           median = Some 301\<rparr> \<and>
   f0 (pitch_frame 0 None) = None \<and> f0 (pitch_frame 1 None) = None \<and>
   voiced_pct (compute_special_parameters unvoiced_frames 500) = 0 \<and>
   high_pitch_pct (compute_special_parameters unvoiced_frames 500) = 0 \<and>
   compute_statistics unvoiced_frames ''f0'' =
     Some \<lparr>mean = None, std = None, min_value = None, max_value = None, median = None\<rparr>"
proof -
  let ?P = "{(''f0'', f0), (''f1'', f1), (''f2'', f2), (''f3'', f3),
             (''hnr'', hnr), (''shimmer'', shimmer), (''jitter'', jitter),
             (''intensity'', intensity)}"
  have v0: "[300, 302] = map the (filter (\<lambda>v. v \<noteq> None) (map f0 sample_frames))"
    by (simp add: sample_frames_def)
  have m0: "(''f0'', f0) \<in> ?P" by simp
  note t0 = statistics_over_defined_samples[of "''f0''" f0 "[300, 302]" sample_frames
              "pitch_frame 5 None" "[]" sample_frames 500, OF m0 v0]
  have s0: "compute_statistics sample_frames ''f0'' =
     Some \<lparr>mean = Some 301, std = Some 1, min_value = Some 300, max_value = Some 302,
           median = Some 301\<rparr>"
    using t0 by simp
  have v1: "[1000, 1002, 1000, 1002] = map the (filter (\<lambda>v. v \<noteq> None) (map f1 sample_frames))"
    by (simp add: sample_frames_def)
  have m1: "(''f1'', f1) \<in> ?P" by simp
  note t1 = statistics_over_defined_samples[of "''f1''" f1 "[1000, 1002, 1000, 1002]" sample_frames
              "pitch_frame 5 None" "[]" sample_frames 500, OF m1 v1]
  have s1: "compute_statistics sample_frames ''f1'' =
     Some \<lparr>mean = Some 1001, std = Some 1, min_value = Some 1000, max_value = Some 1002,
           median = Some 1001\<rparr>"
    using t1 by simp
  have v2: "[2000] = map the (filter (\<lambda>v. v \<noteq> None) (map f2 sample_frames))"
    by (simp add: sample_frames_def)
  have m2: "(''f2'', f2) \<in> ?P" by simp
  note t2 = statistics_over_defined_samples[of "''f2''" f2 "[2000]" sample_frames
              "pitch_frame 5 None" "[]" sample_frames 500, OF m2 v2]
  have s2: "compute_statistics sample_frames ''f2'' =
     Some \<lparr>mean = Some 2000, std = Some 0, min_value = Some 2000, max_value = Some 2000,
           median = Some 2000\<rparr>"
    using t2 by simp
  have v3: "[3000] = map the (filter (\<lambda>v. v \<noteq> None) (map f3 sample_frames))"
    by (simp add: sample_frames_def)
  have m3: "(''f3'', f3) \<in> ?P" by simp
  note t3 = statistics_over_defined_samples[of "''f3''" f3 "[3000]" sample_frames
              "pitch_frame 5 None" "[]" sample_frames 500, OF m3 v3]
  have s3: "compute_statistics sample_frames ''f3'' =
     Some \<lparr>mean = Some 3000, std = Some 0, min_value = Some 3000, max_value = Some 3000,
           median = Some 3000\<rparr>"
    using t3 by simp
  have v4: "[10, 14] = map the (filter (\<lambda>v. v \<noteq> None) (map hnr sample_frames))"
    by (simp add: sample_frames_def)
  have m4: "(''hnr'', hnr) \<in> ?P" by simp
  note t4 = statistics_over_defined_samples[of "''hnr''" hnr "[10, 14]" sample_frames
              "pitch_frame 5 None" "[]" sample_frames 500, OF m4 v4]
  have s4: "compute_statistics sample_frames ''hnr'' =
     Some \<lparr>mean = Some 12, std = Some 2, min_value = Some 10, max_value = Some 14,
           median = Some 12\<rparr>"
    using t4 by simp
  have v5: "[] = map the (filter (\<lambda>v. v \<noteq> None) (map shimmer sample_frames))"
    by (simp add: sample_frames_def)
  have m5: "(''shimmer'', shimmer) \<in> ?P" by simp
  note t5 = statistics_over_defined_samples[of "''shimmer''" shimmer "[]" sample_frames
              "pitch_frame 5 None" "[]" sample_frames 500, OF m5 v5]
  have s5: "compute_statistics sample_frames ''shimmer'' =
     Some \<lparr>mean = None, std = None, min_value = None, max_value = None, median = None\<rparr>"
    using t5 by simp
  have v6: "[1, 3] = map the (filter (\<lambda>v. v \<noteq> None) (map jitter sample_frames))"
    by (simp add: sample_frames_def)
  have m6: "(''jitter'', jitter) \<in> ?P" by simp
  note t6 = statistics_over_defined_samples[of "''jitter''" jitter "[1, 3]" sample_frames
              "pitch_frame 5 None" "[]" sample_frames 500, OF m6 v6]
  have s6: "compute_statistics sample_frames ''jitter'' =
     Some \<lparr>mean = Some 2, std = Some 1, min_value = Some 1, max_value = Some 3,
           median = Some 2\<rparr>"
    using t6 by simp
  have v7: "[60, 62, 62, 60] = map the (filter (\<lambda>v. v \<noteq> None) (map intensity sample_frames))"
    by (simp add: sample_frames_def)
  have m7: "(''intensity'', intensity) \<in> ?P" by simp
  note t7 = statistics_over_defined_samples[of "''intensity''" intensity "[60, 62, 62, 60]" sample_frames
              "pitch_frame 5 None" "[]" sample_frames 500, OF m7 v7]
  have s7: "compute_statistics sample_frames ''intensity'' =
     Some \<lparr>mean = Some 61, std = Some 1, min_value = Some 60, max_value = Some 62,
           median = Some 61\<rparr>"
    using t7 by simp
  have ab: "f0 (pitch_frame 5 None) = None" by (simp add: pitch_frame_def)
  have ins: "compute_statistics (pitch_frame 5 None # sample_frames) ''f0'' =
     Some \<lparr>mean = Some 301, std = Some 1, min_value = Some 300, max_value = Some 302,
           median = Some 301\<rparr>"
    using t0 ab s0 by simp
  have flt: "compute_statistics (filter (\<lambda>f. f0 f \<noteq> None) sample_frames) ''f0'' =
     Some \<lparr>mean = Some 301, std = Some 1, min_value = Some 300, max_value = Some 302,
           median = Some 301\<rparr>"
    using t0 s0 by simp
  have un: "\<forall>f \<in> set unvoiced_frames. f0 f = None"
    by (simp add: unvoiced_frames_def pitch_frame_def)
  have f: "f0 (pitch_frame 0 None) = None \<and> f0 (pitch_frame 1 None) = None"
    by (simp add: pitch_frame_def)
  have vu: "[] = map the (filter (\<lambda>v. v \<noteq> None) (map f0 unvoiced_frames))"
    by (simp add: unvoiced_frames_def pitch_frame_def)
  note tu = statistics_over_defined_samples[of "''f0''" f0 "[]" unvoiced_frames
              "pitch_frame 5 None" "[]" "[]" 500, OF m0 vu]
  have u: "voiced_pct (compute_special_parameters unvoiced_frames 500) = 0 \<and>
           high_pitch_pct (compute_special_parameters unvoiced_frames 500) = 0 \<and>
           compute_statistics unvoiced_frames ''f0'' =
             Some \<lparr>mean = None, std = None, min_value = None, max_value = None, median = None\<rparr>"
    using tu un by blast
  show ?thesis
    using v0 v1 v2 v3 v4 v5 v6 v7 s0 s1 s2 s3 s4 s5 s6 s7 ab ins flt f u by simp
qed

section \<open>The analysis job: failure\<close>

lemma analyze_episodes_fails:
  assumes "k < length eps" and "f (i + k) (eps ! k) = Inl e"
    and "\<forall>j < k. \<exists>r. f (i + j) (eps ! j) = Inr r"
  shows "analyze_episodes f i eps = Inl e"
  using assms
proof (induction eps arbitrary: i k)
  case Nil
  then show ?case by simp
next
  case (Cons ep eps)
  show ?case
  proof (cases k)
    case 0
    then show ?thesis using Cons.prems by simp
  next
    case (Suc k')
    obtain r where r: "f i ep = Inr r" using Cons.prems(3) Suc by force
    have "analyze_episodes f (Suc i) eps = Inl e"
    proof (rule Cons.IH[of k'])
      show "k' < length eps" using Cons.prems(1) Suc by simp
      show "f (Suc i + k') (eps ! k') = Inl e" using Cons.prems(2) Suc by simp
      show "\<forall>j<k'. \<exists>r. f (Suc i + j) (eps ! j) = Inr r"
      proof (intro allI impI)
        fix j assume "j < k'"
        then have "Suc j < k" using Suc by simp
        then show "\<exists>r. f (Suc i + j) (eps ! j) = Inr r"
          using Cons.prems(3) by force
      qed
    qed
    then show ?thesis using r by simp
  qed
qed


subsection \<open>Claim C9\<close>

text \<open>
  C9. The audio file is in the database. When detection raises, or loading the audio for
  the unit detection raises, or the analysis of some episode raises after the episodes
  before it went through, the task ends with the file marked \<open>failed\<close>, with the stored
  analysis results exactly those from before the task, and with the same exception
  raised to the caller.
\<close>

theorem failure_aborts_job:
  assumes "audio_files db file_id = Some af"
    and "detect st (file_path af) = Inl e \<or>
         (detect st (file_path af) = Inr eps \<and> load_full st (file_path af) = Inl e) \<or>
         (detect st (file_path af) = Inr eps \<and> load_full st (file_path af) = Inr y \<and>
          k < length eps \<and> analyze_episode st (file_path af) y k (eps ! k) = Inl e \<and>
          (\<forall>j < k. \<exists>r. analyze_episode st (file_path af) y j (eps ! j) = Inr r))"
  shows "analyze_audio_file st file_id db =
           (db\<lparr>audio_files := (audio_files db)(file_id \<mapsto> af\<lparr>status := ''failed''\<rparr>)\<rparr>,
            Raised e) \<and>
         analysis_results (fst (analyze_audio_file st file_id db)) = analysis_results db \<and>
         map_option status (audio_files (fst (analyze_audio_file st file_id db)) file_id)
           = Some ''failed'' \<and>
         snd (analyze_audio_file st file_id db) = Raised e"
proof -
  let ?db1 = "set_status file_id af ''processing'' db"
  have tb: "try_body st file_id db = (?db1, Inl e)"
    using assms(2)
  proof (elim disjE conjE)
    assume "detect st (file_path af) = Inl e"
    then show ?thesis using assms(1) by (simp add: try_body_def Let_def)
  next
    assume "detect st (file_path af) = Inr eps" "load_full st (file_path af) = Inl e"
    then show ?thesis using assms(1) by (simp add: try_body_def Let_def)
  next
    assume d: "detect st (file_path af) = Inr eps" and l: "load_full st (file_path af) = Inr y"
      and k: "k < length eps" "analyze_episode st (file_path af) y k (eps ! k) = Inl e"
        "\<forall>j < k. \<exists>r. analyze_episode st (file_path af) y j (eps ! j) = Inr r"
    have "analyze_episodes (analyze_episode st (file_path af) y) 0 eps = Inl e"
      using k by (intro analyze_episodes_fails[of k]) simp_all
    then show ?thesis using assms(1) d l by (simp add: try_body_def Let_def)
  qed
  have "analyze_audio_file st file_id db =
           (db\<lparr>audio_files := (audio_files db)(file_id \<mapsto> af\<lparr>status := ''failed''\<rparr>)\<rparr>,
            Raised e)"
    unfolding analyze_audio_file_def tb by (simp add: set_status_def)
  then show ?thesis by simp
qed

theorem failure_aborts_job_witness:
  "audio_files one_file_db 7 = Some uploaded_file \<and>
   detect failing_stages (file_path uploaded_file) = Inr three_episodes \<and>
   load_full failing_stages (file_path uploaded_file) = Inr [] \<and>
   (1::nat) < length three_episodes \<and>
   analyze_episode failing_stages (file_path uploaded_file) [] 1 (three_episodes ! 1)
     = Inl (Failure ''analysis failed'') \<and>
   analyze_episode failing_stages (file_path uploaded_file) [] 0 (three_episodes ! 0) = Inr 0 \<and>
   analysis_results (fst (analyze_audio_file failing_stages 7 one_file_db)) = [] \<and>
   map_option status (audio_files (fst (analyze_audio_file failing_stages 7 one_file_db)) 7)
     = Some ''failed'' \<and>
   snd (analyze_audio_file failing_stages 7 one_file_db) = Raised (Failure ''analysis failed'')"
proof -
  have row: "audio_files one_file_db 7 = Some uploaded_file"
    by (simp add: one_file_db_def)
  have d: "detect failing_stages (file_path uploaded_file) = Inr three_episodes"
    and l: "load_full failing_stages (file_path uploaded_file) = Inr []"
    and k: "(1::nat) < length three_episodes"
    and a1: "analyze_episode failing_stages (file_path uploaded_file) [] 1 (three_episodes ! 1)
               = Inl (Failure ''analysis failed'')"
    and a0: "analyze_episode failing_stages (file_path uploaded_file) [] 0 (three_episodes ! 0)
               = Inr 0"
    by (simp_all add: failing_stages_def three_episodes_def)
  have before: "\<forall>j < (1::nat). \<exists>r.
      analyze_episode failing_stages (file_path uploaded_file) [] j (three_episodes ! j) = Inr r"
    using a0 by simp
  have res: "analysis_results one_file_db = []" by (simp add: one_file_db_def)
  show ?thesis
    using failure_aborts_job[OF row disjI2[OF disjI2], OF conjI[OF d conjI[OF l conjI[OF k
            conjI[OF a1 before]]]]]
          row d l k a1 a0 res
    by simp
qed

text \<open>The same job with no failure stores its result and completes.\<close>

lemma working_job_completes:
  "analysis_results (fst (analyze_audio_file working_stages 7 one_file_db)) =
     [\<lparr>audio_file_id = 7, result_data = (three_episodes, [(0, 0), (1, 1), (2, 2)])\<rparr>] \<and>
   map_option status (audio_files (fst (analyze_audio_file working_stages 7 one_file_db)) 7)
     = Some ''completed'' \<and>
   snd (analyze_audio_file working_stages 7 one_file_db) = Returned 1"
  by (simp add: analyze_audio_file_def try_body_def working_stages_def one_file_db_def
        three_episodes_def set_status_def Let_def)

text \<open>A file id that is not in the database: the task raises and writes nothing.\<close>

lemma missing_file_raises:
  "analyze_audio_file working_stages 3 one_file_db =
     (one_file_db, Raised (ValueError ''Audio file 3 not found''))"
  by (simp add: analyze_audio_file_def try_body_def one_file_db_def str_int_def)

end
